theory Spec2Isabelle
  imports Main
begin

section \<open>The EMM Identification procedure (Identification.c)\<close>

text \<open>
  A shallow embedding of \<^verbatim>\<open>Identification.c\<close>: the four entry points
  \<^verbatim>\<open>emm_proc_identification\<close>, \<^verbatim>\<open>emm_proc_identification_complete\<close>,
  \<^verbatim>\<open>_identification_t3470_handler\<close> and the delivery handlers, together with the
  send routine \<^verbatim>\<open>_identification_request\<close> they share.

  The global data of the C program (\<^verbatim>\<open>_emm_data\<close>, \<^verbatim>\<open>mme_app_desc\<close>, the objects
  behind the pointers) is one record that every operation takes and returns. Objects that
  the C code reaches through pointers live in stores from addresses to values, so that
  a context can exist as an object while it is no longer registered in \<^verbatim>\<open>_emm_data\<close>.
  Every call of an external collaborator is appended to a log, in program order.
  A fatal assertion or the dereference of an invalid pointer ends the run with \<open>Inl\<close>.
\<close>

subsection \<open>Data model\<close>

type_synonym mme_ue_s1ap_id = nat
type_synonym imsi64 = nat
type_synonym imsi = "nat list"
type_synonym imei = "nat list"
type_synonym imeisv = "nat list"
type_synonym ctx_ptr = nat
type_synonym proc_ptr = nat

text \<open>
  Modelled from the spec: the enumeration of registration states is declared elsewhere in the repository. Section 4.1 names the two states that permit a common procedure;
  every other state is \<open>EMM_STATE_OTHER\<close>.
\<close>

datatype emm_fsm_state = EMM_DEREGISTERED | EMM_REGISTERED | EMM_STATE_OTHER nat

text \<open>The identity types, in the order of the table \<^verbatim>\<open>_emm_identity_type_str\<close>.\<close>

datatype identity_type2 =
    IDENTITY_TYPE_2_NOT_AVAILABLE
  | IDENTITY_TYPE_2_IMSI
  | IDENTITY_TYPE_2_IMEI
  | IDENTITY_TYPE_2_IMEISV
  | IDENTITY_TYPE_2_TMSI

text \<open>
  Function pointers: the four static handlers of this file, the null pointer, and
  callbacks supplied by callers, which are opaque here.
\<close>

datatype handler =
    CB_NULL
  | CB_identification_t3470_handler
  | CB_identification_ll_failure
  | CB_identification_non_delivered_ho
  | CB_identification_abort
  | CB_extern nat

definition RETURNok :: int where
  "RETURNok = 0"

definition RETURNerror :: int where
  "RETURNerror = - 1"

definition NAS_TIMER_INACTIVE_ID :: int where
  "NAS_TIMER_INACTIVE_ID = - 1"

definition EMM_CAUSE_ILLEGAL_UE :: nat where
  "EMM_CAUSE_ILLEGAL_UE = 3"

text \<open>
  Modelled from the spec: the timer handle of section 3 holds an identifier (a sentinel
  denotes inactive), the fire callback and the callback argument.
\<close>

record nas_timer =
  tm_id :: int
  tm_cb :: handler
  tm_args :: "ctx_ptr option"

text \<open>
  The Identification procedure: the fields of the base procedure, of the EMM procedure
  and of the Identification procedure that \<^verbatim>\<open>Identification.c\<close> reads or writes.
  The retransmission counter is declared elsewhere in the repository; the handler of
  T3470 prints it as a 32-bit integer. It is held here as a natural number, and its
  increment in the handler wraps around at \<open>2 ^ 32\<close>, as that of an unsigned 32-bit
  integer does.
\<close>

record nas_emm_ident_proc =
  ip_nas_puid :: nat
  ip_parent :: "proc_ptr option"
  ip_success_notif :: handler
  ip_failure_notif :: handler
  ip_abort :: handler
  ip_fail_in :: handler
  ip_time_out :: handler
  ip_delivered :: handler
  ip_previous_emm_fsm_state :: emm_fsm_state
  ip_not_delivered :: handler
  ip_not_delivered_ho :: handler
  ip_T3470 :: nas_timer
  ip_retransmission_count :: nat
  ip_ue_id :: mme_ue_s1ap_id
  ip_identity_type :: identity_type2

text \<open>The specific procedure that owns an Identification procedure as its parent.\<close>

record nas_emm_specific_proc =
  sp_retry_timer :: nas_timer
  sp_retry_cb :: handler
  sp_old_ue_id :: mme_ue_s1ap_id

text \<open>
  The common procedures of a context: an Identification procedure is a reference into
  the store of Identification procedures; the other types are opaque.
\<close>

datatype nas_emm_common_proc = EMM_COMM_PROC_IDENT proc_ptr | EMM_COMM_PROC_OTHER nat

record emm_data_context =
  ctx_ue_id :: mme_ue_s1ap_id
  ctx_emm_fsm_state :: emm_fsm_state
  ctx_emm_cause :: nat
  ctx_imsi :: "imsi option"
  ctx_imsi64 :: imsi64
  ctx_imei :: "imei option"
  ctx_imeisv :: "imeisv option"
  ctx_security :: nat
  ctx_emm_common_procs :: "nas_emm_common_proc list"

subsection \<open>Primitives of the EMM service access points\<close>

text \<open>
  A primitive carries the fields that the code sets; all other fields of
  \<^verbatim>\<open>emm_sap_t\<close> are zero, from the initialiser or from \<^verbatim>\<open>memset\<close>.
\<close>

record emm_reg_common =
  reg_ue_id :: mme_ue_s1ap_id
  reg_ctx :: ctx_ptr
  reg_notify :: bool
  reg_free_proc :: bool
  reg_common_proc :: proc_ptr
  reg_previous_emm_fsm_state :: emm_fsm_state

datatype emm_as_msg_type = EMM_AS_MSG_TYPE_IDENT

record emm_as_security =
  sec_puid :: nat
  sec_guti :: "nat option"
  sec_ue_id :: mme_ue_s1ap_id
  sec_msg_type :: emm_as_msg_type
  sec_ident_type :: identity_type2
  sec_sctx :: "nat \<times> bool \<times> bool"

record emm_cn_implicit_detach =
  cn_emm_cause :: nat
  cn_detach_type :: nat
  cn_ue_id :: mme_ue_s1ap_id

datatype emm_sap =
    EMMREG_COMMON_PROC_REQ mme_ue_s1ap_id ctx_ptr
  | EMMREG_COMMON_PROC_CNF emm_reg_common
  | EMMREG_COMMON_PROC_ABORT emm_reg_common
  | EMMAS_SECURITY_REQ emm_as_security
  | EMMCN_IMPLICIT_DETACH_UE emm_cn_implicit_detach

text \<open>The log of calls to external collaborators.\<close>

datatype event =
    Ev_emm_sap_send emm_sap
  | Ev_nas_stop_T3470 mme_ue_s1ap_id
  | Ev_nas_start_T3470 mme_ue_s1ap_id
  | Ev_nas_stop_T_retry_specific_procedure mme_ue_s1ap_id
  | Ev_nas_start_T_retry_specific_procedure mme_ue_s1ap_id
  | Ev_nas_itti_esm_detach_ind mme_ue_s1ap_id bool
  | Ev_nas_new_identification_procedure ctx_ptr
  | Ev_nas_delete_all_emm_procedures ctx_ptr
  | Ev_emm_ctx_set_valid_imsi ctx_ptr imsi64
  | Ev_emm_data_context_upsert_imsi ctx_ptr
  | Ev_emm_ctx_set_valid_imei ctx_ptr
  | Ev_emm_ctx_set_valid_imeisv ctx_ptr

datatype fatal = InvalidPointer | AssertFailed

subsection \<open>The state of the program\<close>

record mme_state =
  emm_contexts :: "ctx_ptr \<rightharpoonup> emm_data_context"
  ident_procs :: "proc_ptr \<rightharpoonup> nas_emm_ident_proc"
  specific_procs :: "proc_ptr \<rightharpoonup> nas_emm_specific_proc"
  emm_data_ue_id :: "mme_ue_s1ap_id \<rightharpoonup> ctx_ptr"
  emm_data_imsi :: "imsi64 \<rightharpoonup> ctx_ptr"
  mme_ue_contexts_imsi :: "imsi64 \<rightharpoonup> mme_ue_s1ap_id"
  next_proc_ptr :: nat
  next_timer_id :: nat
  trace :: "event list"

text \<open>
  What the environment decides: the return code of \<^verbatim>\<open>emm_sap_send\<close> for a primitive
  in a state, and the constant \<^verbatim>\<open>IDENTIFICATION_COUNTER_MAX\<close>, whose definition is defined elsewhere in the repository (the spec gives 5 as the reference value).
\<close>

record env =
  sap_rc :: "mme_state \<Rightarrow> emm_sap \<Rightarrow> int"
  IDENTIFICATION_COUNTER_MAX :: nat

subsection \<open>External collaborators\<close>

text \<open>
  Modelled from the spec: the subscriber context store (section 2) is a keyed lookup of
  subscriber state by transport-local identifier and by permanent identity. The
  functions \<^verbatim>\<open>emm_data_context_get\<close>, \<^verbatim>\<open>emm_data_context_get_by_imsi\<close> and
  \<^verbatim>\<open>mme_ue_context_exists_imsi\<close> are defined elsewhere in the repository.
\<close>

definition emm_data_context_get :: "mme_state \<Rightarrow> mme_ue_s1ap_id \<Rightarrow> ctx_ptr option" where
  "emm_data_context_get st ue = emm_data_ue_id st ue"

definition emm_data_context_get_by_imsi :: "mme_state \<Rightarrow> imsi64 \<Rightarrow> ctx_ptr option" where
  "emm_data_context_get_by_imsi st i = emm_data_imsi st i"

definition mme_ue_context_exists_imsi :: "mme_state \<Rightarrow> imsi64 \<Rightarrow> mme_ue_s1ap_id option" where
  "mme_ue_context_exists_imsi st i = mme_ue_contexts_imsi st i"

text \<open>
  Modelled from the spec: \<^verbatim>\<open>imsi_to_imsi64\<close> is defined elsewhere in the repository; the digits
  of the IMSI are read as a decimal number.
\<close>

definition imsi_to_imsi64 :: "imsi \<Rightarrow> imsi64" where
  "imsi_to_imsi64 ds = foldl (\<lambda>acc d. 10 * acc + d) 0 ds"

text \<open>
  Modelled from the spec: \<^verbatim>\<open>emm_fsm_get_state\<close> is defined elsewhere in the repository; it
  returns the registration state in effect (section 4.1).
\<close>

definition emm_fsm_get_state :: "emm_data_context \<Rightarrow> emm_fsm_state" where
  "emm_fsm_get_state ctx = ctx_emm_fsm_state ctx"

text \<open>
  Modelled from the spec: \<^verbatim>\<open>get_nas_common_procedure_identification\<close> is defined elsewhere in the repository; it looks up an existing unreleased procedure of the Identification
  type among the common procedures of the context (section 4.1).
\<close>

fun find_ident :: "nas_emm_common_proc list \<Rightarrow> proc_ptr option" where
  "find_ident [] = None"
| "find_ident (EMM_COMM_PROC_IDENT p # ps) = Some p"
| "find_ident (EMM_COMM_PROC_OTHER k # ps) = find_ident ps"

definition get_nas_common_procedure_identification :: "emm_data_context \<Rightarrow> proc_ptr option" where
  "get_nas_common_procedure_identification ctx = find_ident (ctx_emm_common_procs ctx)"

text \<open>
  Modelled from the spec: \<^verbatim>\<open>nas_new_identification_procedure\<close> is defined elsewhere in the repository; it allocates an Identification procedure for the context, with the
  retransmission counter at 0 and the timer inactive (section 3).
\<close>

definition new_ident_proc :: "nat \<Rightarrow> nas_emm_ident_proc" where
  "new_ident_proc puid =
     \<lparr> ip_nas_puid = puid, ip_parent = None,
       ip_success_notif = CB_NULL, ip_failure_notif = CB_NULL, ip_abort = CB_NULL,
       ip_fail_in = CB_NULL, ip_time_out = CB_NULL, ip_delivered = CB_NULL,
       ip_previous_emm_fsm_state = EMM_STATE_OTHER 0,
       ip_not_delivered = CB_NULL, ip_not_delivered_ho = CB_NULL,
       ip_T3470 = \<lparr> tm_id = NAS_TIMER_INACTIVE_ID, tm_cb = CB_NULL, tm_args = None \<rparr>,
       ip_retransmission_count = 0, ip_ue_id = 0,
       ip_identity_type = IDENTITY_TYPE_2_NOT_AVAILABLE \<rparr>"

definition nas_new_identification_procedure :: "ctx_ptr \<Rightarrow> mme_state \<Rightarrow> proc_ptr \<times> mme_state" where
  "nas_new_identification_procedure c st =
     (let p = next_proc_ptr st in
      (p, st\<lparr> emm_contexts :=
                 (case emm_contexts st c of
                    None \<Rightarrow> emm_contexts st
                  | Some ctx \<Rightarrow> (emm_contexts st)(c \<mapsto> ctx\<lparr> ctx_emm_common_procs :=
                                   EMM_COMM_PROC_IDENT p # ctx_emm_common_procs ctx \<rparr>)),
               ident_procs := (ident_procs st)(p \<mapsto> new_ident_proc p),
               next_proc_ptr := Suc p,
               trace := trace st @ [Ev_nas_new_identification_procedure c] \<rparr>))"

text \<open>
  Modelled from the spec: releasing procedures. \<^verbatim>\<open>nas_delete_all_emm_procedures\<close> is defined elsewhere in the repository; it releases all common procedures of the subscriber
  (section 4.1). Releasing one procedure removes it from its context and from the store
  of procedures.
\<close>

definition nas_delete_common_procedure :: "ctx_ptr \<Rightarrow> proc_ptr \<Rightarrow> mme_state \<Rightarrow> mme_state" where
  "nas_delete_common_procedure c p st =
     st\<lparr> emm_contexts :=
           (case emm_contexts st c of
              None \<Rightarrow> emm_contexts st
            | Some ctx \<Rightarrow> (emm_contexts st)(c \<mapsto> ctx\<lparr> ctx_emm_common_procs :=
                             removeAll (EMM_COMM_PROC_IDENT p) (ctx_emm_common_procs ctx) \<rparr>)),
         ident_procs := (ident_procs st)(p := None) \<rparr>"

definition nas_delete_all_emm_procedures :: "ctx_ptr \<Rightarrow> mme_state \<Rightarrow> mme_state" where
  "nas_delete_all_emm_procedures c st =
     (case emm_contexts st c of
        None \<Rightarrow> st\<lparr> trace := trace st @ [Ev_nas_delete_all_emm_procedures c] \<rparr>
      | Some ctx \<Rightarrow>
          st\<lparr> emm_contexts := (emm_contexts st)(c \<mapsto> ctx\<lparr> ctx_emm_common_procs := [] \<rparr>),
              ident_procs := (\<lambda>p. if List.member (ctx_emm_common_procs ctx) (EMM_COMM_PROC_IDENT p)
                                   then None else ident_procs st p),
              trace := trace st @ [Ev_nas_delete_all_emm_procedures c] \<rparr>)"

text \<open>
  Modelled from the spec: \<^verbatim>\<open>emm_sap_send\<close> is declared in \<^verbatim>\<open>emm_sap.h\<close> and
  defined elsewhere in the repository. The dispatcher (section 4.4) delivers the
  primitive; a concluding primitive that asks to free the procedure releases it
  (sections 4.1 and 4.3). The return code is the environment's; a primitive that is
  not delivered has no effect beyond the call itself.
\<close>

fun emm_sap_deliver :: "emm_sap \<Rightarrow> mme_state \<Rightarrow> mme_state" where
  "emm_sap_deliver (EMMREG_COMMON_PROC_CNF r) st =
     (if reg_free_proc r then nas_delete_common_procedure (reg_ctx r) (reg_common_proc r) st else st)"
| "emm_sap_deliver (EMMREG_COMMON_PROC_ABORT r) st =
     (if reg_free_proc r then nas_delete_common_procedure (reg_ctx r) (reg_common_proc r) st else st)"
| "emm_sap_deliver (EMMREG_COMMON_PROC_REQ ue c) st = st"
| "emm_sap_deliver (EMMAS_SECURITY_REQ s) st = st"
| "emm_sap_deliver (EMMCN_IMPLICIT_DETACH_UE d) st = st"

definition emm_sap_send :: "env \<Rightarrow> emm_sap \<Rightarrow> mme_state \<Rightarrow> int \<times> mme_state" where
  "emm_sap_send e msg st =
     (let rc = sap_rc e st msg;
          st1 = st\<lparr> trace := trace st @ [Ev_emm_sap_send msg] \<rparr>
      in if rc = RETURNerror then (rc, st1) else (rc, emm_sap_deliver msg st1))"

text \<open>
  Modelled from the spec: the timer service (section 2) arms a single-shot timer with a
  payload and a fire callback, and supports cancel-before-fire. The functions
  \<^verbatim>\<open>nas_start_T3470\<close>, \<^verbatim>\<open>nas_stop_T3470\<close> and the two functions of the retry timer of
  a specific procedure are defined elsewhere in the repository.
\<close>

definition nas_stop_T3470 :: "mme_ue_s1ap_id \<Rightarrow> proc_ptr \<Rightarrow> mme_state \<Rightarrow> mme_state" where
  "nas_stop_T3470 ue p st =
     st\<lparr> ident_procs :=
           (case ident_procs st p of
              None \<Rightarrow> ident_procs st
            | Some ip \<Rightarrow> (ident_procs st)(p \<mapsto>
                ip\<lparr> ip_T3470 := (ip_T3470 ip)\<lparr> tm_id := NAS_TIMER_INACTIVE_ID \<rparr> \<rparr>)),
         trace := trace st @ [Ev_nas_stop_T3470 ue] \<rparr>"

definition nas_start_T3470 ::
  "mme_ue_s1ap_id \<Rightarrow> proc_ptr \<Rightarrow> handler \<Rightarrow> ctx_ptr option \<Rightarrow> mme_state \<Rightarrow> mme_state" where
  "nas_start_T3470 ue p cb args st =
     st\<lparr> ident_procs :=
           (case ident_procs st p of
              None \<Rightarrow> ident_procs st
            | Some ip \<Rightarrow> (ident_procs st)(p \<mapsto>
                ip\<lparr> ip_T3470 := \<lparr> tm_id = int (next_timer_id st), tm_cb = cb, tm_args = args \<rparr> \<rparr>)),
         next_timer_id := Suc (next_timer_id st),
         trace := trace st @ [Ev_nas_start_T3470 ue] \<rparr>"

definition nas_stop_T_retry_specific_procedure ::
  "mme_ue_s1ap_id \<Rightarrow> proc_ptr \<Rightarrow> mme_state \<Rightarrow> mme_state" where
  "nas_stop_T_retry_specific_procedure ue pp st =
     st\<lparr> specific_procs :=
           (case specific_procs st pp of
              None \<Rightarrow> specific_procs st
            | Some sp \<Rightarrow> (specific_procs st)(pp \<mapsto>
                sp\<lparr> sp_retry_timer := (sp_retry_timer sp)\<lparr> tm_id := NAS_TIMER_INACTIVE_ID \<rparr> \<rparr>)),
         trace := trace st @ [Ev_nas_stop_T_retry_specific_procedure ue] \<rparr>"

definition nas_start_T_retry_specific_procedure ::
  "mme_ue_s1ap_id \<Rightarrow> proc_ptr \<Rightarrow> handler \<Rightarrow> ctx_ptr option \<Rightarrow> mme_state \<Rightarrow> mme_state" where
  "nas_start_T_retry_specific_procedure ue pp cb args st =
     st\<lparr> specific_procs :=
           (case specific_procs st pp of
              None \<Rightarrow> specific_procs st
            | Some sp \<Rightarrow> (specific_procs st)(pp \<mapsto>
                sp\<lparr> sp_retry_timer := \<lparr> tm_id = int (next_timer_id st), tm_cb = cb, tm_args = args \<rparr> \<rparr>)),
         next_timer_id := Suc (next_timer_id st),
         trace := trace st @ [Ev_nas_start_T_retry_specific_procedure ue] \<rparr>"

text \<open>
  Modelled from the spec: \<^verbatim>\<open>nas_itti_esm_detach_ind\<close> is defined elsewhere in the repository;
  it signals the owning application layer that cleanup is needed (section 4.1).
\<close>

definition nas_itti_esm_detach_ind :: "mme_ue_s1ap_id \<Rightarrow> bool \<Rightarrow> mme_state \<Rightarrow> mme_state" where
  "nas_itti_esm_detach_ind ue clr st = st\<lparr> trace := trace st @ [Ev_nas_itti_esm_detach_ind ue clr] \<rparr>"

text \<open>
  Modelled from the spec: the updates of the identities of a context are defined elsewhere in the repository. Section 4.3 has the permanent identity committed onto the context and
  the context indexed in the store by that identity; section 4.2 has the IMEI or the
  IMEISV recorded on the context.
\<close>

definition emm_ctx_set_valid_imsi :: "ctx_ptr \<Rightarrow> imsi \<Rightarrow> imsi64 \<Rightarrow> mme_state \<Rightarrow> mme_state" where
  "emm_ctx_set_valid_imsi c i i64 st =
     st\<lparr> emm_contexts :=
           (case emm_contexts st c of
              None \<Rightarrow> emm_contexts st
            | Some ctx \<Rightarrow> (emm_contexts st)(c \<mapsto> ctx\<lparr> ctx_imsi := Some i, ctx_imsi64 := i64 \<rparr>)),
         trace := trace st @ [Ev_emm_ctx_set_valid_imsi c i64] \<rparr>"

definition emm_data_context_upsert_imsi :: "ctx_ptr \<Rightarrow> mme_state \<Rightarrow> mme_state" where
  "emm_data_context_upsert_imsi c st =
     st\<lparr> emm_data_imsi :=
           (case emm_contexts st c of
              None \<Rightarrow> emm_data_imsi st
            | Some ctx \<Rightarrow> (emm_data_imsi st)(ctx_imsi64 ctx \<mapsto> c)),
         trace := trace st @ [Ev_emm_data_context_upsert_imsi c] \<rparr>"

definition emm_ctx_set_valid_imei :: "ctx_ptr \<Rightarrow> imei \<Rightarrow> mme_state \<Rightarrow> mme_state" where
  "emm_ctx_set_valid_imei c i st =
     st\<lparr> emm_contexts :=
           (case emm_contexts st c of
              None \<Rightarrow> emm_contexts st
            | Some ctx \<Rightarrow> (emm_contexts st)(c \<mapsto> ctx\<lparr> ctx_imei := Some i \<rparr>)),
         trace := trace st @ [Ev_emm_ctx_set_valid_imei c] \<rparr>"

definition emm_ctx_set_valid_imeisv :: "ctx_ptr \<Rightarrow> imeisv \<Rightarrow> mme_state \<Rightarrow> mme_state" where
  "emm_ctx_set_valid_imeisv c i st =
     st\<lparr> emm_contexts :=
           (case emm_contexts st c of
              None \<Rightarrow> emm_contexts st
            | Some ctx \<Rightarrow> (emm_contexts st)(c \<mapsto> ctx\<lparr> ctx_imeisv := Some i \<rparr>)),
         trace := trace st @ [Ev_emm_ctx_set_valid_imeisv c] \<rparr>"

subsection \<open>The functions of Identification.c\<close>

text \<open>
  \<^verbatim>\<open>_identification_request\<close>: sends the IDENTITY REQUEST message and starts timer
  T3470. The context is looked up in the store by the identifier held by the procedure.
  The primitive for the access stratum is built from the procedure and from the
  security data of the context.
\<close>

definition identity_request :: "nas_emm_ident_proc \<Rightarrow> emm_data_context \<Rightarrow> emm_sap" where
  "identity_request proc emm_ctx =
     EMMAS_SECURITY_REQ
       \<lparr> sec_puid = ip_nas_puid proc, sec_guti = None,
         sec_ue_id = ip_ue_id proc, sec_msg_type = EMM_AS_MSG_TYPE_IDENT,
         sec_ident_type = ip_identity_type proc,
         sec_sctx = (ctx_security emm_ctx, False, True) \<rparr>"

definition identification_request :: "env \<Rightarrow> proc_ptr \<Rightarrow> mme_state \<Rightarrow> fatal + (int \<times> mme_state)" where
  "identification_request e p st =
     (case ident_procs st p of
        None \<Rightarrow> Inl InvalidPointer
      | Some proc \<Rightarrow>
          (case emm_data_context_get st (ip_ue_id proc) of
             None \<Rightarrow> Inr (RETURNerror, st)
           | Some c \<Rightarrow>
               (case emm_contexts st c of
                  None \<Rightarrow> Inl InvalidPointer
                | Some emm_ctx \<Rightarrow>
                    (let (rc, st1) = emm_sap_send e (identity_request proc emm_ctx) st
                     in if rc \<noteq> RETURNerror
                        then Inr (rc, nas_start_T3470 (ip_ue_id proc) p (ip_time_out proc) (Some c) st1)
                        else Inr (rc, st1)))))"

text \<open>
  \<^verbatim>\<open>emm_proc_identification\<close>: initiates an identification procedure. The two pointer
  arguments may be null.
\<close>

definition emm_proc_identification ::
  "env \<Rightarrow> ctx_ptr option \<Rightarrow> proc_ptr option \<Rightarrow> identity_type2 \<Rightarrow> handler \<Rightarrow> handler \<Rightarrow>
   mme_state \<Rightarrow> fatal + (int \<times> mme_state)" where
  "emm_proc_identification e emm_context emm_proc type success failure st =
     (case emm_context of
        None \<Rightarrow> Inr (RETURNerror, st)
      | Some c \<Rightarrow>
          (case emm_contexts st c of
             None \<Rightarrow> Inl InvalidPointer
           | Some ctx \<Rightarrow>
               if ctx_emm_fsm_state ctx = EMM_DEREGISTERED \<or> ctx_emm_fsm_state ctx = EMM_REGISTERED
               then
                 (let ue_id = ctx_ue_id ctx;
                      (p, st1) = (case get_nas_common_procedure_identification ctx of
                                    Some p \<Rightarrow> (p, st)
                                  | None \<Rightarrow> nas_new_identification_procedure c st)
                  in case ident_procs st1 p of
                       None \<Rightarrow> Inl InvalidPointer
                     | Some ident_proc \<Rightarrow>
                         (let ident_proc' = ident_proc
                                \<lparr> ip_identity_type := type,
                                  ip_retransmission_count := 0,
                                  ip_ue_id := ue_id,
                                  ip_parent := emm_proc,
                                  ip_delivered := CB_NULL,
                                  ip_previous_emm_fsm_state := emm_fsm_get_state ctx,
                                  ip_not_delivered := CB_identification_ll_failure,
                                  ip_not_delivered_ho := CB_identification_non_delivered_ho,
                                  ip_success_notif := success,
                                  ip_failure_notif := failure,
                                  ip_abort := CB_identification_abort,
                                  ip_fail_in := CB_NULL,
                                  ip_time_out := CB_identification_t3470_handler \<rparr>;
                              st2 = st1\<lparr> ident_procs := (ident_procs st1)(p \<mapsto> ident_proc') \<rparr>
                          in case identification_request e p st2 of
                               Inl f \<Rightarrow> Inl f
                             | Inr (rc, st3) \<Rightarrow>
                                 if rc \<noteq> RETURNerror
                                 then Inr (emm_sap_send e (EMMREG_COMMON_PROC_REQ ue_id c) st3)
                                 else Inr (rc, st3)))
               else Inr (RETURNerror, st)))"

text \<open>
  The primitive that concludes the procedure in \<^verbatim>\<open>emm_proc_identification_complete\<close>:
  the three places that build it differ in the flag \<open>notify\<close> only.
\<close>

definition common_proc_cnf ::
  "mme_ue_s1ap_id \<Rightarrow> ctx_ptr \<Rightarrow> bool \<Rightarrow> proc_ptr \<Rightarrow> nas_emm_ident_proc \<Rightarrow> emm_sap" where
  "common_proc_cnf ue c notify p ident_proc =
     EMMREG_COMMON_PROC_CNF
       \<lparr> reg_ue_id = ue, reg_ctx = c, reg_notify = notify, reg_free_proc = True,
         reg_common_proc = p,
         reg_previous_emm_fsm_state = ip_previous_emm_fsm_state ident_proc \<rparr>"

text \<open>
  The restart of the retry timer of the parent, as both conflict branches do it: the
  timer is stopped, started again with the callback of the parent and the completing
  context as argument, and the identifier of the other context is recorded. A procedure
  without a parent makes the C code dereference a null pointer.
\<close>

definition restart_parent_retry ::
  "ctx_ptr \<Rightarrow> emm_data_context \<Rightarrow> nas_emm_ident_proc \<Rightarrow> mme_ue_s1ap_id \<Rightarrow> mme_state \<Rightarrow>
   fatal + mme_state" where
  "restart_parent_retry c emm_ctx ident_proc old_ue st =
     (case ip_parent ident_proc of
        None \<Rightarrow> Inl InvalidPointer
      | Some pp \<Rightarrow>
          (case specific_procs st pp of
             None \<Rightarrow> Inl InvalidPointer
           | Some parent \<Rightarrow>
               (let st1 = nas_stop_T_retry_specific_procedure (ctx_ue_id emm_ctx) pp st;
                    st2 = nas_start_T_retry_specific_procedure (ctx_ue_id emm_ctx) pp
                            (sp_retry_cb parent) (Some c) st1
                in case specific_procs st2 pp of
                     None \<Rightarrow> Inl InvalidPointer
                   | Some parent2 \<Rightarrow>
                       Inr (st2\<lparr> specific_procs :=
                                 (specific_procs st2)(pp \<mapsto> parent2\<lparr> sp_old_ue_id := old_ue \<rparr>) \<rparr>))))"

text \<open>
  The update of the IMSI when no other context holds it: the identity is set on the
  context, the context is indexed by it, and the lookup by the IMSI is asserted.
\<close>

definition update_imsi :: "ctx_ptr \<Rightarrow> imsi \<Rightarrow> imsi64 \<Rightarrow> mme_state \<Rightarrow> fatal + mme_state" where
  "update_imsi c i i64 st =
     (let st1 = emm_ctx_set_valid_imsi c i i64 st;
          st2 = emm_data_context_upsert_imsi c st1
      in case emm_data_context_get_by_imsi st2 i64 of
           None \<Rightarrow> Inl AssertFailed
         | Some imsi_emm_ctx_test \<Rightarrow> Inr st2)"

text \<open>
  \<^verbatim>\<open>emm_proc_identification_complete\<close>: the completion of the procedure on an
  IDENTITY RESPONSE. The branch of an IMSI first looks for another EMM context with the
  same IMSI, then for another context of the application layer with the same IMSI, and
  only then updates the context. The primitive that concludes the procedure reads the
  previous registration state from the procedure; no step before it writes that field.
\<close>

definition emm_proc_identification_complete ::
  "env \<Rightarrow> mme_ue_s1ap_id \<Rightarrow> imsi option \<Rightarrow> imei option \<Rightarrow> imeisv option \<Rightarrow> nat option \<Rightarrow>
   mme_state \<Rightarrow> fatal + (int \<times> mme_state)" where
  "emm_proc_identification_complete e ue_id imsi imei imeisv tmsi st =
     (case emm_data_context_get st ue_id of
        None \<Rightarrow> Inr (RETURNerror, st)
      | Some c \<Rightarrow>
      (case emm_contexts st c of
        None \<Rightarrow> Inl InvalidPointer
      | Some emm_ctx \<Rightarrow>
      (case get_nas_common_procedure_identification emm_ctx of
        None \<Rightarrow> Inr (RETURNerror, st)
      | Some p \<Rightarrow>
      (case ident_procs st p of
        None \<Rightarrow> Inl InvalidPointer
      | Some ident_proc \<Rightarrow>
          (let st1 = nas_stop_T3470 ue_id p st;
               success = (\<lambda>s. Inr (emm_sap_send e (common_proc_cnf ue_id c True p ident_proc) s))
           in case imsi of
                Some i \<Rightarrow>
                  (let imsi64 = imsi_to_imsi64 i;
                       imsi_emm_ctx_duplicate =
                         (case emm_data_context_get_by_imsi st1 imsi64 of
                            None \<Rightarrow> Inr None
                          | Some d \<Rightarrow>
                              (case emm_contexts st1 d of
                                 None \<Rightarrow> Inl InvalidPointer
                               | Some dup \<Rightarrow>
                                   if ctx_ue_id dup \<noteq> ctx_ue_id emm_ctx
                                   then Inr (Some (d, dup)) else Inr None));
                       ue_context_duplicate_imsi =
                         (case mme_ue_context_exists_imsi st1 imsi64 of
                            None \<Rightarrow> None
                          | Some other \<Rightarrow> if other \<noteq> ctx_ue_id emm_ctx then Some other else None)
                   in case imsi_emm_ctx_duplicate of
                        Inl f \<Rightarrow> Inl f
                      | Inr (Some (d, dup)) \<Rightarrow>
                          (case restart_parent_retry c emm_ctx ident_proc (ctx_ue_id dup) st1 of
                             Inl f \<Rightarrow> Inl f
                           | Inr st2 \<Rightarrow>
                               (let st3 = st2\<lparr> emm_contexts := (emm_contexts st2)
                                            (d \<mapsto> dup\<lparr> ctx_emm_cause := EMM_CAUSE_ILLEGAL_UE \<rparr>) \<rparr>;
                                    (rc1, st4) = emm_sap_send e
                                      (EMMCN_IMPLICIT_DETACH_UE
                                         \<lparr> cn_emm_cause = EMM_CAUSE_ILLEGAL_UE, cn_detach_type = 0,
                                           cn_ue_id = ctx_ue_id dup \<rparr>) st3;
                                    (rc2, st5) = emm_sap_send e
                                      (common_proc_cnf ue_id c False p ident_proc) st4
                                in Inr (RETURNok, st5)))
                      | Inr None \<Rightarrow>
                          (case ue_context_duplicate_imsi of
                             Some other \<Rightarrow>
                               (let st2 = nas_itti_esm_detach_ind other False st1
                                in case restart_parent_retry c emm_ctx ident_proc other st2 of
                                     Inl f \<Rightarrow> Inl f
                                   | Inr st3 \<Rightarrow>
                                       (let (rc2, st4) = emm_sap_send e
                                              (common_proc_cnf ue_id c False p ident_proc) st3
                                        in Inr (RETURNok, st4)))
                           | None \<Rightarrow>
                               (case update_imsi c i imsi64 st1 of
                                  Inl f \<Rightarrow> Inl f
                                | Inr st2 \<Rightarrow> success st2)))
              | None \<Rightarrow>
                  (case imei of
                     Some i \<Rightarrow> success (emm_ctx_set_valid_imei c i st1)
                   | None \<Rightarrow>
                       (case imeisv of
                          Some i \<Rightarrow> success (emm_ctx_set_valid_imeisv c i st1)
                        | None \<Rightarrow>
                            (case tmsi of
                               Some t \<Rightarrow> Inl AssertFailed
                             | None \<Rightarrow> success st1))))))))"

text \<open>
  \<^verbatim>\<open>_identification_t3470_handler\<close>: the handler of the expiry of timer T3470. Its
  argument is the context that was given to the timer, which may be null; the handler
  then logs an error and leaves through the logging macro that ends every function,
  which returns. The increment of the counter wraps around at \<open>2 ^ 32\<close>. The primitive
  of the abort has the flags \<open>notify = false\<close> and \<open>free_proc = true\<close>; the primitive
  of the implicit detach sets the identifier only, so that its cause and its detach type
  are zero. After \<^verbatim>\<open>nas_delete_all_emm_procedures\<close> the C code reads
  \<^verbatim>\<open>ident_proc->ue_id\<close> three times through the pointer that it holds since the start
  of the handler (for the lookup of the context, for the primitive of the implicit detach
  and for the indication of the cleanup): the procedure is therefore looked up in the
  store of procedures again, in the state after the release, and the read of a released
  procedure is an invalid pointer, as every other dereference is.
\<close>

definition identification_t3470_handler :: "env \<Rightarrow> ctx_ptr option \<Rightarrow> mme_state \<Rightarrow> fatal + mme_state" where
  "identification_t3470_handler e args st =
     (case args of
        None \<Rightarrow> Inr st
      | Some c \<Rightarrow>
      (case emm_contexts st c of
        None \<Rightarrow> Inl InvalidPointer
      | Some emm_ctx \<Rightarrow>
      (case get_nas_common_procedure_identification emm_ctx of
        None \<Rightarrow> Inr st
      | Some p \<Rightarrow>
      (case ident_procs st p of
        None \<Rightarrow> Inl InvalidPointer
      | Some ident_proc0 \<Rightarrow>
          (let ident_proc = ident_proc0
                 \<lparr> ip_T3470 := (ip_T3470 ident_proc0)\<lparr> tm_id := NAS_TIMER_INACTIVE_ID \<rparr>,
                   ip_retransmission_count :=
                     (ip_retransmission_count ident_proc0 + 1) mod 2 ^ 32 \<rparr>;
               st1 = st\<lparr> ident_procs := (ident_procs st)(p \<mapsto> ident_proc) \<rparr>
           in if ip_retransmission_count ident_proc < IDENTIFICATION_COUNTER_MAX e
              then
                (case identification_request e p st1 of
                   Inl f \<Rightarrow> Inl f
                 | Inr (rc, st2) \<Rightarrow> Inr st2)
              else
                (let (rc, st2) = emm_sap_send e
                       (EMMREG_COMMON_PROC_ABORT
                          \<lparr> reg_ue_id = ip_ue_id ident_proc, reg_ctx = c, reg_notify = False,
                            reg_free_proc = True, reg_common_proc = p,
                            reg_previous_emm_fsm_state = ip_previous_emm_fsm_state ident_proc \<rparr>)
                       st1;
                     st3 = nas_delete_all_emm_procedures c st2
                 in case ident_procs st3 p of
                      None \<Rightarrow> Inl InvalidPointer
                    | Some ident_proc2 \<Rightarrow>
                        (case emm_data_context_get st3 (ip_ue_id ident_proc2) of
                           Some c' \<Rightarrow>
                             Inr (snd (emm_sap_send e
                                    (EMMCN_IMPLICIT_DETACH_UE
                                       \<lparr> cn_emm_cause = 0, cn_detach_type = 0,
                                         cn_ue_id = ip_ue_id ident_proc2 \<rparr>) st3))
                         | None \<Rightarrow>
                             Inr (nas_itti_esm_detach_ind (ip_ue_id ident_proc2) False st3))))))))"

text \<open>
  \<^verbatim>\<open>_identification_ll_failure\<close>, \<^verbatim>\<open>_identification_non_delivered_ho\<close> and
  \<^verbatim>\<open>_identification_abort\<close>. The first and the last never assign their return code,
  which stays \<^verbatim>\<open>RETURNerror\<close>. The last asserts that its argument is an
  Identification procedure; here the argument refers to the store of Identification
  procedures, so that the assertion holds wherever the reference is valid.
\<close>

definition identification_ll_failure ::
  "ctx_ptr option \<Rightarrow> proc_ptr option \<Rightarrow> mme_state \<Rightarrow> int \<times> mme_state" where
  "identification_ll_failure emm_context emm_proc st =
     (case (emm_context, emm_proc) of
        (Some c, Some p) \<Rightarrow> (RETURNerror, nas_delete_all_emm_procedures c st)
      | _ \<Rightarrow> (RETURNerror, st))"

definition identification_non_delivered_ho ::
  "env \<Rightarrow> ctx_ptr option \<Rightarrow> proc_ptr option \<Rightarrow> mme_state \<Rightarrow> fatal + (int \<times> mme_state)" where
  "identification_non_delivered_ho e emm_context emm_proc st =
     (case (emm_context, emm_proc) of
        (Some c, Some p) \<Rightarrow> identification_request e p st
      | _ \<Rightarrow> Inr (RETURNerror, st))"

definition identification_abort ::
  "ctx_ptr option \<Rightarrow> proc_ptr option \<Rightarrow> mme_state \<Rightarrow> fatal + (int \<times> mme_state)" where
  "identification_abort emm_context emm_base_proc st =
     (case (emm_context, emm_base_proc) of
        (Some c, Some p) \<Rightarrow>
          (case ident_procs st p of
             None \<Rightarrow> Inl InvalidPointer
           | Some ident_proc \<Rightarrow> Inr (RETURNerror, nas_stop_T3470 (ip_ue_id ident_proc) p st))
      | _ \<Rightarrow> Inr (RETURNerror, st))"

subsection \<open>Timer expiry\<close>

text \<open>
  Modelled from the spec: the expiry of timer T3470 of a procedure. The timer service
  (section 2) fires an armed single-shot timer by calling the fire callback with the
  callback argument; a timer that is not armed, or whose procedure is released, does not
  fire. The only callback that \<^verbatim>\<open>Identification.c\<close> gives to T3470 is the handler
  above.
\<close>

definition T3470_expiry :: "env \<Rightarrow> proc_ptr \<Rightarrow> mme_state \<Rightarrow> fatal + mme_state" where
  "T3470_expiry e p st =
     (case ident_procs st p of
        None \<Rightarrow> Inr st
      | Some ident_proc \<Rightarrow>
          if tm_id (ip_T3470 ident_proc) = NAS_TIMER_INACTIVE_ID then Inr st
          else if tm_cb (ip_T3470 ident_proc) = CB_identification_t3470_handler
          then identification_t3470_handler e (tm_args (ip_T3470 ident_proc)) st
          else Inl InvalidPointer)"

text \<open>A number of consecutive expiries of T3470 of one procedure.\<close>

fun timeouts :: "env \<Rightarrow> proc_ptr \<Rightarrow> nat \<Rightarrow> mme_state \<Rightarrow> fatal + mme_state" where
  "timeouts e p 0 st = Inr st"
| "timeouts e p (Suc n) st =
     (case T3470_expiry e p st of
        Inl f \<Rightarrow> Inl f
      | Inr st' \<Rightarrow> timeouts e p n st')"

subsection \<open>Conditions on states and environments\<close>

text \<open>
  A live subscriber context: the object exists and the store has it under its own
  identifier.
\<close>

definition registered :: "mme_state \<Rightarrow> ctx_ptr \<Rightarrow> emm_data_context \<Rightarrow> bool" where
  "registered st c ctx =
     (emm_contexts st c = Some ctx \<and> emm_data_context_get st (ctx_ue_id ctx) = Some c)"

text \<open>The Identification procedure that a context refers to, if any, exists.\<close>

definition ident_valid :: "mme_state \<Rightarrow> emm_data_context \<Rightarrow> bool" where
  "ident_valid st ctx =
     (case get_nas_common_procedure_identification ctx of
        None \<Rightarrow> True
      | Some p \<Rightarrow> ident_procs st p \<noteq> None)"

text \<open>The send primitive reports success for every identity request.\<close>

definition request_delivered :: "env \<Rightarrow> bool" where
  "request_delivered e = (\<forall>st proc ctx. sap_rc e st (identity_request proc ctx) \<noteq> RETURNerror)"

text \<open>
  A log in which timer T3470 is started only directly after an identity request for the
  same subscriber has been handed to the access stratum. The first argument is the
  call before the ones in the list.
\<close>

fun is_identity_request :: "event \<Rightarrow> mme_ue_s1ap_id \<Rightarrow> bool" where
  "is_identity_request (Ev_emm_sap_send (EMMAS_SECURITY_REQ m)) ue =
     (sec_ue_id m = ue \<and> sec_msg_type m = EMM_AS_MSG_TYPE_IDENT)"
| "is_identity_request ev ue = False"

fun started_T3470 :: "event \<Rightarrow> mme_ue_s1ap_id option" where
  "started_T3470 (Ev_nas_start_T3470 ue) = Some ue"
| "started_T3470 ev = None"

fun armed_after_request :: "event option \<Rightarrow> event list \<Rightarrow> bool" where
  "armed_after_request prev [] = True"
| "armed_after_request prev (ev # evs) =
     ((case started_T3470 ev of
         None \<Rightarrow> True
       | Some ue \<Rightarrow> (case prev of None \<Rightarrow> False | Some pe \<Rightarrow> is_identity_request pe ue))
      \<and> armed_after_request (Some ev) evs)"

text \<open>
  A subscriber with a live Identification procedure that awaits a response: the context
  is live, the procedure is the Identification procedure of the context and carries the
  identifier of the context, its retransmission counter is \<open>k\<close>, and its timer T3470
  is armed with the handler of this file and the context as argument.
\<close>

definition awaiting :: "mme_state \<Rightarrow> ctx_ptr \<Rightarrow> proc_ptr \<Rightarrow> nat \<Rightarrow> bool" where
  "awaiting st c p k =
     (case emm_contexts st c of
        None \<Rightarrow> False
      | Some ctx \<Rightarrow>
          emm_data_context_get st (ctx_ue_id ctx) = Some c \<and>
          get_nas_common_procedure_identification ctx = Some p \<and>
          (case ident_procs st p of
             None \<Rightarrow> False
           | Some ip \<Rightarrow>
               ip_ue_id ip = ctx_ue_id ctx \<and>
               ip_retransmission_count ip = k \<and>
               ip_time_out ip = CB_identification_t3470_handler \<and>
               tm_id (ip_T3470 ip) \<noteq> NAS_TIMER_INACTIVE_ID \<and>
               tm_cb (ip_T3470 ip) = CB_identification_t3470_handler \<and>
               tm_args (ip_T3470 ip) = Some c))"

text \<open>The identity request that the procedure of a context sends at present.\<close>

definition the_request :: "mme_state \<Rightarrow> ctx_ptr \<Rightarrow> proc_ptr \<Rightarrow> emm_sap option" where
  "the_request st c p =
     (case emm_contexts st c of
        None \<Rightarrow> None
      | Some ctx \<Rightarrow>
          (case ident_procs st p of
             None \<Rightarrow> None
           | Some ip \<Rightarrow> Some (identity_request ip ctx)))"

text \<open>The number of Identification procedures among the common procedures of a context.\<close>

fun is_ident :: "nas_emm_common_proc \<Rightarrow> bool" where
  "is_ident (EMM_COMM_PROC_IDENT p) = True"
| "is_ident (EMM_COMM_PROC_OTHER k) = False"

definition ident_count :: "emm_data_context \<Rightarrow> nat" where
  "ident_count ctx = length (filter is_ident (ctx_emm_common_procs ctx))"

text \<open>The store and the objects that the send routine reads are there.\<close>

definition request_defined :: "mme_state \<Rightarrow> mme_ue_s1ap_id \<Rightarrow> bool" where
  "request_defined st ue =
     (case emm_data_context_get st ue of
        None \<Rightarrow> True
      | Some c \<Rightarrow> emm_contexts st c \<noteq> None)"


text \<open>Timer T3470 of a procedure is not armed, or the procedure is released.\<close>

definition timer_off :: "mme_state \<Rightarrow> proc_ptr \<Rightarrow> bool" where
  "timer_off st p =
     (case ident_procs st p of
        None \<Rightarrow> True
      | Some ip \<Rightarrow> tm_id (ip_T3470 ip) = NAS_TIMER_INACTIVE_ID)"

text \<open>
  A state that follows another one in which T3470 of a procedure was stopped: its log
  extends the log of the earlier state, and the timer is still not armed.
\<close>

definition follows_stop :: "mme_state \<Rightarrow> proc_ptr \<Rightarrow> mme_state \<Rightarrow> bool" where
  "follows_stop s0 p s = ((\<exists>tr. trace s = trace s0 @ tr) \<and> timer_off s p)"

subsection \<open>Concrete states\<close>

text \<open>
  A subscriber with identifier 7 in the state deregistered, registered in the store at
  address 4, with no procedure yet; a specific procedure at address 5.
\<close>

definition ex_ctx :: emm_data_context where
  "ex_ctx = \<lparr> ctx_ue_id = 7, ctx_emm_fsm_state = EMM_DEREGISTERED, ctx_emm_cause = 0,
              ctx_imsi = None, ctx_imsi64 = 0, ctx_imei = None, ctx_imeisv = None,
              ctx_security = 0, ctx_emm_common_procs = [] \<rparr>"

definition ex_attach_proc :: nas_emm_specific_proc where
  "ex_attach_proc =
     \<lparr> sp_retry_timer = \<lparr> tm_id = NAS_TIMER_INACTIVE_ID, tm_cb = CB_NULL, tm_args = None \<rparr>,
       sp_retry_cb = CB_extern 9, sp_old_ue_id = 0 \<rparr>"

definition ex_st0 :: mme_state where
  "ex_st0 = \<lparr> emm_contexts = [4 \<mapsto> ex_ctx], ident_procs = Map.empty,
              specific_procs = [5 \<mapsto> ex_attach_proc], emm_data_ue_id = [7 \<mapsto> 4],
              emm_data_imsi = Map.empty, mme_ue_contexts_imsi = Map.empty,
              next_proc_ptr = 0, next_timer_id = 0, trace = [] \<rparr>"

text \<open>An environment in which every primitive is delivered, and one in which none is.\<close>

definition ex_env_ok :: env where
  "ex_env_ok = \<lparr> sap_rc = (\<lambda>st msg. RETURNok), IDENTIFICATION_COUNTER_MAX = 5 \<rparr>"

definition ex_env_fail :: env where
  "ex_env_fail = \<lparr> sap_rc = (\<lambda>st msg. RETURNerror), IDENTIFICATION_COUNTER_MAX = 5 \<rparr>"

text \<open>
  The same subscriber with an Identification procedure at address 0 that awaits a
  response, after a number of retransmissions, next to a common procedure of another
  type; the same state with the subscriber gone from the store; and a subscriber in a
  state that forbids common procedures.
\<close>

definition ex_ip :: "nat \<Rightarrow> nas_emm_ident_proc" where
  "ex_ip k =
     \<lparr> ip_nas_puid = 0, ip_parent = Some 5,
       ip_success_notif = CB_extern 2, ip_failure_notif = CB_extern 3,
       ip_abort = CB_identification_abort, ip_fail_in = CB_NULL,
       ip_time_out = CB_identification_t3470_handler, ip_delivered = CB_NULL,
       ip_previous_emm_fsm_state = EMM_DEREGISTERED,
       ip_not_delivered = CB_identification_ll_failure,
       ip_not_delivered_ho = CB_identification_non_delivered_ho,
       ip_T3470 = \<lparr> tm_id = 0, tm_cb = CB_identification_t3470_handler, tm_args = Some 4 \<rparr>,
       ip_retransmission_count = k, ip_ue_id = 7,
       ip_identity_type = IDENTITY_TYPE_2_IMSI \<rparr>"

definition ex_ctx_wait :: emm_data_context where
  "ex_ctx_wait = ex_ctx\<lparr> ctx_emm_common_procs := [EMM_COMM_PROC_OTHER 2, EMM_COMM_PROC_IDENT 0] \<rparr>"

definition ex_st_wait :: "nat \<Rightarrow> mme_state" where
  "ex_st_wait k = ex_st0\<lparr> emm_contexts := [4 \<mapsto> ex_ctx_wait], ident_procs := [0 \<mapsto> ex_ip k],
                          next_proc_ptr := 2, next_timer_id := 2 \<rparr>"

definition ex_st_gone :: "nat \<Rightarrow> mme_state" where
  "ex_st_gone k = (ex_st_wait k)\<lparr> emm_data_ue_id := Map.empty \<rparr>"

definition ex_ctx_other :: emm_data_context where
  "ex_ctx_other = ex_ctx\<lparr> ctx_emm_fsm_state := EMM_STATE_OTHER 3 \<rparr>"

definition ex_st_other :: mme_state where
  "ex_st_other = ex_st0\<lparr> emm_contexts := [4 \<mapsto> ex_ctx_other] \<rparr>"

text \<open>
  The state after an expiry of T3470 in \<open>ex_st_wait 0\<close> when the send primitive
  reports an error: the counter is 1, the request is in the log, the timer is inactive.
\<close>

definition ex_ip_failed :: nas_emm_ident_proc where
  "ex_ip_failed = (ex_ip 1)\<lparr> ip_T3470 :=
     \<lparr> tm_id = NAS_TIMER_INACTIVE_ID, tm_cb = CB_identification_t3470_handler, tm_args = Some 4 \<rparr> \<rparr>"

definition ex_st_failed :: mme_state where
  "ex_st_failed = (ex_st_wait 0)\<lparr> ident_procs := [0 \<mapsto> ex_ip_failed],
     trace := [Ev_emm_sap_send (identity_request (ex_ip 0) ex_ctx_wait)] \<rparr>"

text \<open>
  Two subscribers: the one above, whose Identification procedure awaits a response, and
  an older one with identifier 8 at address 6 that holds the IMSI 208.
\<close>

definition ex_ctx_old :: emm_data_context where
  "ex_ctx_old = ex_ctx\<lparr> ctx_ue_id := 8, ctx_imsi := Some [2, 0, 8], ctx_imsi64 := 208 \<rparr>"

definition ex_st_dup :: mme_state where
  "ex_st_dup = (ex_st_wait 2)\<lparr> emm_contexts := [4 \<mapsto> ex_ctx_wait, 6 \<mapsto> ex_ctx_old],
                                emm_data_ue_id := [7 \<mapsto> 4, 8 \<mapsto> 6],
                                emm_data_imsi := [208 \<mapsto> 6] \<rparr>"

text \<open>
  The same two subscribers before any Identification procedure: the one with
  identifier 7 has no procedure yet.
\<close>

definition ex_st_two :: mme_state where
  "ex_st_two = ex_st0\<lparr> emm_contexts := [4 \<mapsto> ex_ctx, 6 \<mapsto> ex_ctx_old],
                        emm_data_ue_id := [7 \<mapsto> 4, 8 \<mapsto> 6],
                        emm_data_imsi := [208 \<mapsto> 6] \<rparr>"

section \<open>Properties\<close>

subsection \<open>Facts about the concrete states\<close>

lemma ex_start_facts:
  "emm_contexts ex_st0 4 = Some ex_ctx"
  "emm_contexts ex_st_other 4 = Some ex_ctx_other"
  "ctx_emm_fsm_state ex_ctx = EMM_DEREGISTERED"
  "ctx_emm_fsm_state ex_ctx_other \<noteq> EMM_DEREGISTERED"
  "ctx_emm_fsm_state ex_ctx_other \<noteq> EMM_REGISTERED"
  "ctx_ue_id ex_ctx = 7"
  "registered ex_st0 4 ex_ctx" "ident_valid ex_st0 ex_ctx"
  "request_delivered ex_env_ok"
  "trace ex_st0 = []"
  by (simp_all add: ex_st0_def ex_st_other_def ex_ctx_def ex_ctx_other_def registered_def
      ident_valid_def request_delivered_def ex_env_ok_def emm_data_context_get_def
      get_nas_common_procedure_identification_def RETURNok_def RETURNerror_def)

lemma ex_wait_facts:
  "emm_contexts (ex_st_wait k) 4 = Some ex_ctx_wait"
  "get_nas_common_procedure_identification ex_ctx_wait = Some 0"
  "ident_procs (ex_st_wait k) 0 = Some (ex_ip k)"
  "emm_contexts (ex_st_gone k) 4 = Some ex_ctx_wait"
  "ident_procs (ex_st_gone k) 0 = Some (ex_ip k)"
  "ip_retransmission_count (ex_ip k) = k"
  "ip_ue_id (ex_ip k) = 7"
  "trace (ex_st_wait k) = []"
  "trace (ex_st_gone k) = []"
  "IDENTIFICATION_COUNTER_MAX ex_env_ok = 5"
  "IDENTIFICATION_COUNTER_MAX ex_env_fail = 5"
  "emm_data_context_get (ex_st_wait k) 7 = Some 4"
  "emm_data_context_get (ex_st_gone k) 7 = None"
  by (simp_all add: ex_st_wait_def ex_st_gone_def ex_st0_def ex_ctx_wait_def ex_ctx_def ex_ip_def
      get_nas_common_procedure_identification_def ex_env_ok_def ex_env_fail_def
      emm_data_context_get_def)

lemma ex_env_facts:
  "request_delivered ex_env_ok"
  "sap_rc ex_env_ok s m = RETURNok" "sap_rc ex_env_fail s m = RETURNerror"
  "RETURNok \<noteq> RETURNerror"
  by (simp_all add: request_delivered_def ex_env_ok_def ex_env_fail_def RETURNok_def RETURNerror_def)

lemma ex_awaiting:
  "awaiting (ex_st_wait k) 4 0 k"
  "the_request (ex_st_wait k) 4 0 = Some (identity_request (ex_ip 0) ex_ctx_wait)"
  "ctx_ue_id ex_ctx_wait = 7"
  by (simp_all add: awaiting_def the_request_def ex_st_wait_def ex_st0_def ex_ctx_wait_def ex_ctx_def
      ex_ip_def emm_data_context_get_def get_nas_common_procedure_identification_def
      NAS_TIMER_INACTIVE_ID_def identity_request_def)

lemma ex_dup_facts:
  "emm_data_context_get ex_st_dup 7 = Some 4"
  "emm_contexts ex_st_dup 4 = Some ex_ctx_wait"
  "ident_procs ex_st_dup 0 = Some (ex_ip 2)"
  "emm_data_context_get_by_imsi ex_st_dup (imsi_to_imsi64 [2, 0, 8]) = Some 6"
  "emm_contexts ex_st_dup 6 = Some ex_ctx_old"
  "ctx_ue_id ex_ctx_old \<noteq> ctx_ue_id ex_ctx_wait"
  "ip_parent (ex_ip 2) = Some 5"
  "specific_procs ex_st_dup 5 = Some ex_attach_proc"
  "trace ex_st_dup = []" "ctx_ue_id ex_ctx_old = 8" "ctx_ue_id ex_ctx_wait = 7"
  "ip_previous_emm_fsm_state (ex_ip 2) = EMM_DEREGISTERED"
  "emm_data_imsi ex_st_dup 208 = Some 6" "ctx_imsi ex_ctx_wait = None"
  by (simp_all add: ex_st_dup_def ex_st_wait_def ex_st0_def ex_ctx_wait_def ex_ctx_def ex_ip_def
      ex_ctx_old_def emm_data_context_get_def emm_data_context_get_by_imsi_def imsi_to_imsi64_def)

lemma ex_bind_facts:
  "emm_data_context_get_by_imsi (ex_st_wait k) (imsi_to_imsi64 [2, 0, 8]) = None"
  "mme_ue_context_exists_imsi (ex_st_wait k) (imsi_to_imsi64 [2, 0, 8]) = None"
  "imsi_to_imsi64 [2, 0, 8] = 208"
  "ip_previous_emm_fsm_state (ex_ip k) = EMM_DEREGISTERED"
  "emm_data_context_get_by_imsi (ex_st_wait k) 208 = None"
  "mme_ue_context_exists_imsi (ex_st_wait k) 208 = None"
  by (simp_all add: ex_st_wait_def ex_st0_def emm_data_context_get_by_imsi_def
      mme_ue_context_exists_imsi_def imsi_to_imsi64_def ex_ip_def)

subsection \<open>The send routine\<close>

lemma emm_sap_send_as:
  "emm_sap_send e (identity_request proc emm_ctx) st =
     (sap_rc e st (identity_request proc emm_ctx),
      st\<lparr> trace := trace st @ [Ev_emm_sap_send (identity_request proc emm_ctx)] \<rparr>)"
  by (simp add: emm_sap_send_def identity_request_def Let_def)

lemma identification_request_absent:
  assumes "ident_procs st p = Some proc" "emm_data_context_get st (ip_ue_id proc) = None"
  shows "identification_request e p st = Inr (RETURNerror, st)"
  using assms by (simp add: identification_request_def)

lemma identification_request_failed:
  assumes "ident_procs st p = Some proc" "emm_data_context_get st (ip_ue_id proc) = Some c"
    "emm_contexts st c = Some emm_ctx"
    "sap_rc e st (identity_request proc emm_ctx) = RETURNerror"
  shows "identification_request e p st =
           Inr (RETURNerror, st\<lparr> trace := trace st @ [Ev_emm_sap_send (identity_request proc emm_ctx)] \<rparr>)"
  using assms by (simp add: identification_request_def emm_sap_send_as)

lemma identification_request_sent:
  assumes "ident_procs st p = Some proc" "emm_data_context_get st (ip_ue_id proc) = Some c"
    "emm_contexts st c = Some emm_ctx"
    "sap_rc e st (identity_request proc emm_ctx) \<noteq> RETURNerror"
  shows "identification_request e p st =
           Inr (sap_rc e st (identity_request proc emm_ctx),
            st\<lparr> ident_procs := (ident_procs st)(p \<mapsto> proc\<lparr> ip_T3470 :=
                    \<lparr> tm_id = int (next_timer_id st), tm_cb = ip_time_out proc, tm_args = Some c \<rparr> \<rparr>),
                next_timer_id := Suc (next_timer_id st),
                trace := trace st @ [Ev_emm_sap_send (identity_request proc emm_ctx),
                                     Ev_nas_start_T3470 (ip_ue_id proc)] \<rparr>)"
  using assms by (simp add: identification_request_def emm_sap_send_as nas_start_T3470_def)

subsection \<open>Responses that match nothing\<close>

text \<open>
  Claim C7. A call of \<^verbatim>\<open>emm_proc_identification_complete\<close> whose identifier matches
  no context in the store, or matches a context without an Identification procedure,
  returns \<^verbatim>\<open>RETURNerror\<close> and leaves the whole state as it was: nothing is mutated
  and the log of calls, hence of primitives, does not grow.
\<close>

theorem complete_stale_is_noop:
  assumes "emm_data_context_get st ue = None \<or>
           (\<exists>c ctx. emm_data_context_get st ue = Some c \<and> emm_contexts st c = Some ctx \<and>
                    get_nas_common_procedure_identification ctx = None)"
  shows "emm_proc_identification_complete e ue imsi imei imeisv tmsi st = Inr (RETURNerror, st)"
  using assms by (auto simp: emm_proc_identification_complete_def)

theorem complete_stale_is_noop_witness:
  "emm_data_context_get ex_st0 9 = None \<and>
   emm_proc_identification_complete ex_env_ok 9 (Some [1, 2, 3]) None None None ex_st0
     = Inr (RETURNerror, ex_st0) \<and>
   emm_data_context_get ex_st0 7 = Some 4 \<and> emm_contexts ex_st0 4 = Some ex_ctx \<and>
   get_nas_common_procedure_identification ex_ctx = None \<and>
   emm_proc_identification_complete ex_env_ok 7 (Some [1, 2, 3]) None None None ex_st0
     = Inr (RETURNerror, ex_st0)"
proof -
  have a: "emm_data_context_get ex_st0 9 = None"
    by (simp add: emm_data_context_get_def ex_st0_def)
  have b: "emm_data_context_get ex_st0 7 = Some 4 \<and> emm_contexts ex_st0 4 = Some ex_ctx \<and>
           get_nas_common_procedure_identification ex_ctx = None"
    by (simp add: emm_data_context_get_def ex_st0_def ex_ctx_def
        get_nas_common_procedure_identification_def)
  show ?thesis
    using a b
      complete_stale_is_noop [of ex_st0 9 ex_env_ok "Some [1, 2, 3]" None None None]
      complete_stale_is_noop [of ex_st0 7 ex_env_ok "Some [1, 2, 3]" None None None]
    by blast
qed

subsection \<open>Logs and frames of the collaborators\<close>

lemma trace_emm_sap_send:
  "trace (snd (emm_sap_send e msg st)) = trace st @ [Ev_emm_sap_send msg]"
  by (cases msg) (simp_all add: emm_sap_send_def Let_def nas_delete_common_procedure_def)

lemma find_ident_mem: "find_ident ps = Some p \<Longrightarrow> EMM_COMM_PROC_IDENT p \<in> set ps"
  by (induction ps rule: find_ident.induct) auto

lemma get_ident_mem:
  "get_nas_common_procedure_identification ctx = Some p \<Longrightarrow>
   EMM_COMM_PROC_IDENT p \<in> set (ctx_emm_common_procs ctx)"
  by (simp add: get_nas_common_procedure_identification_def find_ident_mem)

lemma identification_request_outcome:
  assumes "identification_request e p st = Inr (rc, st')"
  shows "\<exists>proc. ident_procs st p = Some proc \<and>
           (if rc = RETURNerror
            then st' = st \<or> (\<exists>ctx. st' = st\<lparr> trace := trace st @ [Ev_emm_sap_send (identity_request proc ctx)] \<rparr>)
            else \<exists>c ctx. emm_data_context_get st (ip_ue_id proc) = Some c \<and> emm_contexts st c = Some ctx \<and>
                   rc = sap_rc e st (identity_request proc ctx) \<and>
                   st' = st\<lparr> ident_procs := (ident_procs st)(p \<mapsto> proc\<lparr> ip_T3470 :=
                              \<lparr> tm_id = int (next_timer_id st), tm_cb = ip_time_out proc, tm_args = Some c \<rparr> \<rparr>),
                            next_timer_id := Suc (next_timer_id st),
                            trace := trace st @ [Ev_emm_sap_send (identity_request proc ctx),
                                                 Ev_nas_start_T3470 (ip_ue_id proc)] \<rparr>)"
  using assms
  by (auto simp: identification_request_def emm_sap_send_as nas_start_T3470_def
      split: option.splits if_splits)

text \<open>The calls that one run of the send routine adds to the log.\<close>

lemma identification_request_trace:
  assumes "identification_request e p st = Inr (rc, st')"
  shows "\<exists>tr. trace st' = trace st @ tr \<and>
           (tr = [] \<or> (\<exists>m. tr = [Ev_emm_sap_send (EMMAS_SECURITY_REQ m)]) \<or>
            (\<exists>m. sec_msg_type m = EMM_AS_MSG_TYPE_IDENT \<and>
                 tr = [Ev_emm_sap_send (EMMAS_SECURITY_REQ m), Ev_nas_start_T3470 (sec_ue_id m)]))"
proof -
  from identification_request_outcome [OF assms] obtain proc where
    "if rc = RETURNerror
            then st' = st \<or> (\<exists>ctx. st' = st\<lparr> trace := trace st @ [Ev_emm_sap_send (identity_request proc ctx)] \<rparr>)
            else \<exists>c ctx. emm_data_context_get st (ip_ue_id proc) = Some c \<and> emm_contexts st c = Some ctx \<and>
                   rc = sap_rc e st (identity_request proc ctx) \<and>
                   st' = st\<lparr> ident_procs := (ident_procs st)(p \<mapsto> proc\<lparr> ip_T3470 :=
                              \<lparr> tm_id = int (next_timer_id st), tm_cb = ip_time_out proc, tm_args = Some c \<rparr> \<rparr>),
                            next_timer_id := Suc (next_timer_id st),
                            trace := trace st @ [Ev_emm_sap_send (identity_request proc ctx),
                                                 Ev_nas_start_T3470 (ip_ue_id proc)] \<rparr>" by blast
  then show ?thesis
    by (cases "rc = RETURNerror") (auto simp: identity_request_def)
qed

subsection \<open>The handler at the maximum\<close>

text \<open>
  At the maximum the procedure is released before the handler reads its identifier: by
  the delivery of the abort primitive, which frees the procedure, or else by the release
  of all procedures of the context.
\<close>

lemma handler_at_maximum:
  assumes "emm_contexts st c = Some ctx" "get_nas_common_procedure_identification ctx = Some p"
    "ident_procs st p = Some ip"
    "\<not> (ip_retransmission_count ip + 1) mod 2 ^ 32 < IDENTIFICATION_COUNTER_MAX e"
  shows "identification_t3470_handler e (Some c) st = Inl InvalidPointer"
  using assms get_ident_mem [OF assms(2)]
  apply (cases "sap_rc e (st\<lparr>ident_procs := (ident_procs st)(p \<mapsto> ip
                 \<lparr> ip_T3470 := (ip_T3470 ip)\<lparr> tm_id := NAS_TIMER_INACTIVE_ID \<rparr>,
                   ip_retransmission_count := (ip_retransmission_count ip + 1) mod 2 ^ 32 \<rparr>)\<rparr>)
                 (EMMREG_COMMON_PROC_ABORT
                    \<lparr> reg_ue_id = ip_ue_id ip, reg_ctx = c, reg_notify = False,
                      reg_free_proc = True, reg_common_proc = p,
                      reg_previous_emm_fsm_state = ip_previous_emm_fsm_state ip \<rparr>) = RETURNerror")
   apply (auto simp: identification_t3470_handler_def Let_def emm_sap_send_def
      nas_delete_all_emm_procedures_def nas_delete_common_procedure_def
      split: option.splits)
  done

text \<open>Below the maximum the handler hands the procedure over to the send routine.\<close>

lemma handler_below_maximum:
  assumes "emm_contexts st c = Some ctx" "get_nas_common_procedure_identification ctx = Some p"
    "ident_procs st p = Some ip"
    "k = (ip_retransmission_count ip + 1) mod 2 ^ 32" "k < IDENTIFICATION_COUNTER_MAX e"
  shows "identification_t3470_handler e (Some c) st =
           (case identification_request e p
                   (st\<lparr> ident_procs := (ident_procs st)(p \<mapsto> ip
                      \<lparr> ip_T3470 := (ip_T3470 ip)\<lparr> tm_id := NAS_TIMER_INACTIVE_ID \<rparr>,
                        ip_retransmission_count := k \<rparr>) \<rparr>) of
              Inl f \<Rightarrow> Inl f
            | Inr (rc, st2) \<Rightarrow> Inr st2)"
  using assms by (simp add: identification_t3470_handler_def Let_def)

subsection \<open>The start of the procedure\<close>

lemma emm_sap_send_req:
  "emm_sap_send e (EMMREG_COMMON_PROC_REQ ue c) st =
     (sap_rc e st (EMMREG_COMMON_PROC_REQ ue c),
      st\<lparr> trace := trace st @ [Ev_emm_sap_send (EMMREG_COMMON_PROC_REQ ue c)] \<rparr>)"
  by (simp add: emm_sap_send_def Let_def)

lemma start_effect:
  assumes ctx: "emm_contexts st c = Some ctx"
    and ok: "ctx_emm_fsm_state ctx = EMM_DEREGISTERED \<or> ctx_emm_fsm_state ctx = EMM_REGISTERED"
    and reg: "registered st c ctx" and val: "ident_valid st ctx" and del: "request_delivered e"
  shows "\<exists>rc st' p req.
           emm_proc_identification e (Some c) parent type success failure st = Inr (rc, st') \<and>
           awaiting st' c p 0 \<and> the_request st' c p = Some req \<and>
           emm_contexts st' c = Some (ctx\<lparr> ctx_emm_common_procs :=
              (case get_nas_common_procedure_identification ctx of
                 None \<Rightarrow> EMM_COMM_PROC_IDENT p # ctx_emm_common_procs ctx
               | Some q \<Rightarrow> ctx_emm_common_procs ctx) \<rparr>) \<and>
           trace st' = trace st @
              (case get_nas_common_procedure_identification ctx of
                 None \<Rightarrow> [Ev_nas_new_identification_procedure c]
               | Some q \<Rightarrow> []) @
              [Ev_emm_sap_send req, Ev_nas_start_T3470 (ctx_ue_id ctx),
               Ev_emm_sap_send (EMMREG_COMMON_PROC_REQ (ctx_ue_id ctx) c)]"
proof (cases "get_nas_common_procedure_identification ctx")
  case None
  define p where "p = next_proc_ptr st"
  define st1 where "st1 = snd (nas_new_identification_procedure c st)"
  define ip where "ip = (new_ident_proc p)
         \<lparr> ip_identity_type := type, ip_retransmission_count := 0, ip_ue_id := ctx_ue_id ctx,
           ip_parent := parent, ip_delivered := CB_NULL,
           ip_previous_emm_fsm_state := emm_fsm_get_state ctx,
           ip_not_delivered := CB_identification_ll_failure,
           ip_not_delivered_ho := CB_identification_non_delivered_ho,
           ip_success_notif := success, ip_failure_notif := failure,
           ip_abort := CB_identification_abort, ip_fail_in := CB_NULL,
           ip_time_out := CB_identification_t3470_handler \<rparr>"
  define st2 where "st2 = st1\<lparr> ident_procs := (ident_procs st1)(p \<mapsto> ip) \<rparr>"
  define ctx2 where "ctx2 = ctx\<lparr> ctx_emm_common_procs := EMM_COMM_PROC_IDENT p # ctx_emm_common_procs ctx \<rparr>"
  have new: "nas_new_identification_procedure c st = (p, st1)"
    by (simp add: st1_def p_def nas_new_identification_procedure_def Let_def)
  have ip1: "ident_procs st1 p = Some (new_ident_proc p)"
    by (simp add: st1_def p_def nas_new_identification_procedure_def Let_def)
  have a: "ident_procs st2 p = Some ip" by (simp add: st2_def)
  have b: "emm_data_context_get st2 (ip_ue_id ip) = Some c"
    using reg by (simp add: st2_def st1_def ip_def registered_def emm_data_context_get_def
        nas_new_identification_procedure_def Let_def)
  have c2: "emm_contexts st2 c = Some ctx2"
    using ctx by (simp add: st2_def st1_def ctx2_def p_def nas_new_identification_procedure_def Let_def)
  have d: "sap_rc e st2 (identity_request ip ctx2) \<noteq> RETURNerror"
    using del by (simp add: request_delivered_def)
  note req = identification_request_sent [OF a b c2 d]
  have tr2: "trace st2 = trace st @ [Ev_nas_new_identification_procedure c]"
    by (simp add: st2_def st1_def nas_new_identification_procedure_def Let_def)
  define st3 where "st3 = snd (projr (identification_request e p st2))"
  have req': "identification_request e p st2 = Inr (sap_rc e st2 (identity_request ip ctx2), st3)"
    by (simp add: st3_def req)
  have res: "emm_proc_identification e (Some c) parent type success failure st =
      Inr (emm_sap_send e (EMMREG_COMMON_PROC_REQ (ctx_ue_id ctx) c) st3)"
    using ctx ok None new ip1 req' d
    by (simp add: emm_proc_identification_def ip_def [symmetric] st2_def [symmetric])
  define st4 where "st4 = st3\<lparr> trace := trace st3 @ [Ev_emm_sap_send (EMMREG_COMMON_PROC_REQ (ctx_ue_id ctx) c)] \<rparr>"
  define ip3 where "ip3 = ip\<lparr> ip_T3470 :=
       \<lparr> tm_id = int (next_timer_id st2), tm_cb = ip_time_out ip, tm_args = Some c \<rparr> \<rparr>"
  have f4: "emm_contexts st4 c = Some ctx2" "ident_procs st4 p = Some ip3"
    "emm_data_context_get st4 (ctx_ue_id ctx) = Some c"
    "trace st4 = trace st @ [Ev_nas_new_identification_procedure c,
       Ev_emm_sap_send (identity_request ip ctx2), Ev_nas_start_T3470 (ctx_ue_id ctx),
       Ev_emm_sap_send (EMMREG_COMMON_PROC_REQ (ctx_ue_id ctx) c)]"
    using c2 b by (simp_all add: st4_def st3_def req tr2 ip3_def emm_data_context_get_def ip_def)
  have g: "identity_request ip3 ctx2 = identity_request ip ctx2"
    by (simp add: identity_request_def ip3_def)
  have aw: "awaiting st4 c p 0"
    using f4 by (simp add: awaiting_def ctx2_def get_nas_common_procedure_identification_def
        ip3_def ip_def NAS_TIMER_INACTIVE_ID_def)
  have rq: "the_request st4 c p = Some (identity_request ip ctx2)"
    using f4 g by (simp add: the_request_def)
  show ?thesis
    using res aw rq f4 None
    by (auto simp: emm_sap_send_req st4_def [symmetric] ctx2_def intro!: exI [of _ p])
next
  case (Some p)
  then obtain ip0 where ip0: "ident_procs st p = Some ip0"
    using val by (auto simp: ident_valid_def)
  define ip where "ip = ip0
         \<lparr> ip_identity_type := type, ip_retransmission_count := 0, ip_ue_id := ctx_ue_id ctx,
           ip_parent := parent, ip_delivered := CB_NULL,
           ip_previous_emm_fsm_state := emm_fsm_get_state ctx,
           ip_not_delivered := CB_identification_ll_failure,
           ip_not_delivered_ho := CB_identification_non_delivered_ho,
           ip_success_notif := success, ip_failure_notif := failure,
           ip_abort := CB_identification_abort, ip_fail_in := CB_NULL,
           ip_time_out := CB_identification_t3470_handler \<rparr>"
  define st2 where "st2 = st\<lparr> ident_procs := (ident_procs st)(p \<mapsto> ip) \<rparr>"
  have a: "ident_procs st2 p = Some ip" by (simp add: st2_def)
  have b: "emm_data_context_get st2 (ip_ue_id ip) = Some c"
    using reg by (simp add: st2_def ip_def registered_def emm_data_context_get_def)
  have c2: "emm_contexts st2 c = Some ctx"
    using ctx by (simp add: st2_def)
  have d: "sap_rc e st2 (identity_request ip ctx) \<noteq> RETURNerror"
    using del by (simp add: request_delivered_def)
  note req = identification_request_sent [OF a b c2 d]
  have tr2: "trace st2 = trace st" by (simp add: st2_def)
  define st3 where "st3 = snd (projr (identification_request e p st2))"
  have req': "identification_request e p st2 = Inr (sap_rc e st2 (identity_request ip ctx), st3)"
    by (simp add: st3_def req)
  have res: "emm_proc_identification e (Some c) parent type success failure st =
      Inr (emm_sap_send e (EMMREG_COMMON_PROC_REQ (ctx_ue_id ctx) c) st3)"
    using ctx ok Some ip0 req' d
    by (simp add: emm_proc_identification_def ip_def [symmetric] st2_def [symmetric])
  define st4 where "st4 = st3\<lparr> trace := trace st3 @ [Ev_emm_sap_send (EMMREG_COMMON_PROC_REQ (ctx_ue_id ctx) c)] \<rparr>"
  define ip3 where "ip3 = ip\<lparr> ip_T3470 :=
       \<lparr> tm_id = int (next_timer_id st2), tm_cb = ip_time_out ip, tm_args = Some c \<rparr> \<rparr>"
  have f4: "emm_contexts st4 c = Some ctx" "ident_procs st4 p = Some ip3"
    "emm_data_context_get st4 (ctx_ue_id ctx) = Some c"
    "trace st4 = trace st @ [
       Ev_emm_sap_send (identity_request ip ctx), Ev_nas_start_T3470 (ctx_ue_id ctx),
       Ev_emm_sap_send (EMMREG_COMMON_PROC_REQ (ctx_ue_id ctx) c)]"
    using c2 b by (simp_all add: st4_def st3_def req tr2 ip3_def emm_data_context_get_def ip_def)
  have g: "identity_request ip3 ctx = identity_request ip ctx"
    by (simp add: identity_request_def ip3_def)
  have aw: "awaiting st4 c p 0"
    using f4 Some by (simp add: awaiting_def
        ip3_def ip_def NAS_TIMER_INACTIVE_ID_def)
  have rq: "the_request st4 c p = Some (identity_request ip ctx)"
    using f4 g by (simp add: the_request_def)
  show ?thesis
    using res aw rq f4 Some
    by (auto simp: emm_sap_send_req st4_def [symmetric] intro!: exI [of _ p])
qed

lemma start_trace:
  assumes "emm_proc_identification e c0 parent type success failure st = Inr (rc, st')"
  shows "\<exists>tr. trace st' = trace st @ tr \<and> armed_after_request None tr"
proof (cases c0)
  case None
  with assms show ?thesis by (simp add: emm_proc_identification_def)
next
  case (Some c)
  show ?thesis
  proof (cases "emm_contexts st c")
    case None
    with assms Some show ?thesis by (simp add: emm_proc_identification_def)
  next
    case ctx: (Some ctx)
    show ?thesis
    proof (cases "ctx_emm_fsm_state ctx = EMM_DEREGISTERED \<or> ctx_emm_fsm_state ctx = EMM_REGISTERED")
      case False
      with assms Some ctx show ?thesis by (simp add: emm_proc_identification_def)
    next
      case True
      obtain p st1 where new: "(case get_nas_common_procedure_identification ctx of
                                    Some p \<Rightarrow> (p, st)
                                  | None \<Rightarrow> nas_new_identification_procedure c st) = (p, st1)"
        by (cases "(case get_nas_common_procedure_identification ctx of
                                    Some p \<Rightarrow> (p, st)
                                  | None \<Rightarrow> nas_new_identification_procedure c st)") auto
      have tr1: "trace st1 = trace st \<or> trace st1 = trace st @ [Ev_nas_new_identification_procedure c]"
        using new by (auto simp: nas_new_identification_procedure_def Let_def split: option.splits)
      from assms Some ctx True new obtain ip where ip: "ident_procs st1 p = Some ip"
        by (cases "ident_procs st1 p") (auto simp: emm_proc_identification_def)
      define st2 where "st2 = st1\<lparr> ident_procs := (ident_procs st1)(p \<mapsto> ip
                                \<lparr> ip_identity_type := type,
                                  ip_retransmission_count := 0,
                                  ip_ue_id := ctx_ue_id ctx,
                                  ip_parent := parent,
                                  ip_delivered := CB_NULL,
                                  ip_previous_emm_fsm_state := emm_fsm_get_state ctx,
                                  ip_not_delivered := CB_identification_ll_failure,
                                  ip_not_delivered_ho := CB_identification_non_delivered_ho,
                                  ip_success_notif := success,
                                  ip_failure_notif := failure,
                                  ip_abort := CB_identification_abort,
                                  ip_fail_in := CB_NULL,
                                  ip_time_out := CB_identification_t3470_handler \<rparr>) \<rparr>"
      have tr2: "trace st2 = trace st1" by (simp add: st2_def)
      from assms Some ctx True new ip obtain rc2 st3 where
        req: "identification_request e p st2 = Inr (rc2, st3)"
        and res: "(rc, st') = (if rc2 \<noteq> RETURNerror
               then emm_sap_send e (EMMREG_COMMON_PROC_REQ (ctx_ue_id ctx) c) st3 else (rc2, st3))"
        by (cases "identification_request e p st2")
          (auto simp: emm_proc_identification_def st2_def [symmetric] split: if_splits)
      from identification_request_trace [OF req] obtain tr where
        tr3: "trace st3 = trace st2 @ tr"
        and sh: "tr = [] \<or> (\<exists>m. tr = [Ev_emm_sap_send (EMMAS_SECURITY_REQ m)]) \<or>
            (\<exists>m. sec_msg_type m = EMM_AS_MSG_TYPE_IDENT \<and>
                 tr = [Ev_emm_sap_send (EMMAS_SECURITY_REQ m), Ev_nas_start_T3470 (sec_ue_id m)])"
        by blast
      have tr4: "trace st' = trace st3 \<or>
                 trace st' = trace st3 @ [Ev_emm_sap_send (EMMREG_COMMON_PROC_REQ (ctx_ue_id ctx) c)]"
        using res by (auto simp: emm_sap_send_req split: if_splits)
      show ?thesis
        using tr1 tr2 tr3 sh tr4 by auto
    qed
  qed
qed


text \<open>
  Claim C6. For a context whose registration state is neither deregistered nor
  registered, \<^verbatim>\<open>emm_proc_identification\<close> returns \<^verbatim>\<open>RETURNerror\<close> and leaves
  the whole state as it was. For a live context in one of the two states, in an
  environment that delivers identity requests, the call returns and the last call it
  makes is the primitive \<^verbatim>\<open>EMMREG_COMMON_PROC_REQ\<close> for the subscriber, which tells
  the registration layer that a common procedure has begun.
\<close>

theorem start_checks_state_and_notifies:
  assumes "emm_contexts st c = Some ctx"
  shows "(ctx_emm_fsm_state ctx \<noteq> EMM_DEREGISTERED \<and> ctx_emm_fsm_state ctx \<noteq> EMM_REGISTERED \<longrightarrow>
            emm_proc_identification e (Some c) parent type success failure st = Inr (RETURNerror, st)) \<and>
         ((ctx_emm_fsm_state ctx = EMM_DEREGISTERED \<or> ctx_emm_fsm_state ctx = EMM_REGISTERED) \<and>
            registered st c ctx \<and> ident_valid st ctx \<and> request_delivered e \<longrightarrow>
            (\<exists>rc st' tr. emm_proc_identification e (Some c) parent type success failure st = Inr (rc, st') \<and>
               trace st' = trace st @ tr @ [Ev_emm_sap_send (EMMREG_COMMON_PROC_REQ (ctx_ue_id ctx) c)]))"
proof (intro conjI impI)
  assume "ctx_emm_fsm_state ctx \<noteq> EMM_DEREGISTERED \<and> ctx_emm_fsm_state ctx \<noteq> EMM_REGISTERED"
  with assms show "emm_proc_identification e (Some c) parent type success failure st = Inr (RETURNerror, st)"
    by (simp add: emm_proc_identification_def)
next
  assume h: "(ctx_emm_fsm_state ctx = EMM_DEREGISTERED \<or> ctx_emm_fsm_state ctx = EMM_REGISTERED) \<and>
            registered st c ctx \<and> ident_valid st ctx \<and> request_delivered e"
  from start_effect [OF assms, of e parent type success failure] h
  obtain rc st' p req where r:
    "emm_proc_identification e (Some c) parent type success failure st = Inr (rc, st')"
    "trace st' = trace st @
              (case get_nas_common_procedure_identification ctx of
                 None \<Rightarrow> [Ev_nas_new_identification_procedure c]
               | Some q \<Rightarrow> []) @
              [Ev_emm_sap_send req, Ev_nas_start_T3470 (ctx_ue_id ctx),
               Ev_emm_sap_send (EMMREG_COMMON_PROC_REQ (ctx_ue_id ctx) c)]"
    by blast
  have "trace st' = trace st @ ((case get_nas_common_procedure_identification ctx of
                 None \<Rightarrow> [Ev_nas_new_identification_procedure c]
               | Some q \<Rightarrow> []) @
              [Ev_emm_sap_send req, Ev_nas_start_T3470 (ctx_ue_id ctx)]) @
               [Ev_emm_sap_send (EMMREG_COMMON_PROC_REQ (ctx_ue_id ctx) c)]"
    using r(2) by simp
  with r(1) show "\<exists>rc st' tr. emm_proc_identification e (Some c) parent type success failure st = Inr (rc, st') \<and>
               trace st' = trace st @ tr @ [Ev_emm_sap_send (EMMREG_COMMON_PROC_REQ (ctx_ue_id ctx) c)]"
    by blast
qed

theorem start_checks_state_and_notifies_witness:
  "emm_contexts ex_st_other 4 = Some ex_ctx_other \<and>
   ctx_emm_fsm_state ex_ctx_other \<noteq> EMM_DEREGISTERED \<and>
   ctx_emm_fsm_state ex_ctx_other \<noteq> EMM_REGISTERED \<and>
   emm_proc_identification ex_env_ok (Some 4) (Some 5) IDENTITY_TYPE_2_IMSI (CB_extern 2) (CB_extern 3)
     ex_st_other = Inr (RETURNerror, ex_st_other) \<and>
   emm_contexts ex_st0 4 = Some ex_ctx \<and> ctx_emm_fsm_state ex_ctx = EMM_DEREGISTERED \<and>
   registered ex_st0 4 ex_ctx \<and> ident_valid ex_st0 ex_ctx \<and> request_delivered ex_env_ok \<and>
   (\<exists>rc st' tr.
      emm_proc_identification ex_env_ok (Some 4) (Some 5) IDENTITY_TYPE_2_IMSI (CB_extern 2) (CB_extern 3)
        ex_st0 = Inr (rc, st') \<and>
      trace st' = tr @ [Ev_emm_sap_send (EMMREG_COMMON_PROC_REQ 7 4)])"
  using start_checks_state_and_notifies [OF ex_start_facts(2), of ex_env_ok "Some 5"
      IDENTITY_TYPE_2_IMSI "CB_extern 2" "CB_extern 3"]
    start_checks_state_and_notifies [OF ex_start_facts(1), of ex_env_ok "Some 5"
      IDENTITY_TYPE_2_IMSI "CB_extern 2" "CB_extern 3"]
  by (simp add: ex_start_facts)

subsection \<open>The log of the other paths that send a request\<close>

lemma handler_trace:
  assumes "identification_t3470_handler e args st = Inr st'"
  shows "\<exists>tr. trace st' = trace st @ tr \<and> armed_after_request None tr"
proof (cases args)
  case None
  with assms show ?thesis by (simp add: identification_t3470_handler_def)
next
  case (Some c)
  show ?thesis
  proof (cases "emm_contexts st c")
    case None
    with assms Some show ?thesis by (simp add: identification_t3470_handler_def)
  next
    case ctx: (Some ctx)
    show ?thesis
    proof (cases "get_nas_common_procedure_identification ctx")
      case None
      with assms Some ctx show ?thesis by (simp add: identification_t3470_handler_def)
    next
      case p: (Some p)
      show ?thesis
      proof (cases "ident_procs st p")
        case None
        with assms Some ctx p show ?thesis by (simp add: identification_t3470_handler_def)
      next
        case ip: (Some ip)
        show ?thesis
        proof (cases "(ip_retransmission_count ip + 1) mod 2 ^ 32 < IDENTIFICATION_COUNTER_MAX e")
          case False
          from handler_at_maximum [OF ctx p ip False] assms Some
          show ?thesis by simp
        next
          case True
          define k where "k = (ip_retransmission_count ip + 1) mod 2 ^ 32"
          define st1 where "st1 = st\<lparr> ident_procs := (ident_procs st)(p \<mapsto> ip
                 \<lparr> ip_T3470 := (ip_T3470 ip)\<lparr> tm_id := NAS_TIMER_INACTIVE_ID \<rparr>,
                   ip_retransmission_count := k \<rparr>) \<rparr>"
          from True have lt: "k < IDENTIFICATION_COUNTER_MAX e" by (simp add: k_def)
          have h: "identification_t3470_handler e (Some c) st =
                     (case identification_request e p st1 of
                        Inl f \<Rightarrow> Inl f
                      | Inr (rc, st2) \<Rightarrow> Inr st2)"
            unfolding st1_def by (rule handler_below_maximum [OF ctx p ip k_def lt])
          from assms Some h obtain rc where
            req: "identification_request e p st1 = Inr (rc, st')"
            by (cases "identification_request e p st1") auto
          from identification_request_trace [OF req] show ?thesis
            by (auto simp: st1_def)
        qed
      qed
    qed
  qed
qed

lemma non_delivered_ho_trace:
  assumes "identification_non_delivered_ho e c0 p0 st = Inr (rc, st')"
  shows "\<exists>tr. trace st' = trace st @ tr \<and> armed_after_request None tr"
proof (cases "c0 = None \<or> p0 = None")
  case True
  with assms show ?thesis
    by (auto simp: identification_non_delivered_ho_def split: option.splits)
next
  case False
  then obtain c p where "c0 = Some c" "p0 = Some p" by auto
  with assms have "identification_request e p st = Inr (rc, st')"
    by (simp add: identification_non_delivered_ho_def)
  from identification_request_trace [OF this] show ?thesis by auto
qed

subsection \<open>Retransmission on expiry\<close>

lemma awaitingD:
  assumes "awaiting st c p k"
  obtains ctx ip where "emm_contexts st c = Some ctx"
    "emm_data_context_get st (ctx_ue_id ctx) = Some c"
    "get_nas_common_procedure_identification ctx = Some p"
    "ident_procs st p = Some ip" "ip_ue_id ip = ctx_ue_id ctx"
    "ip_retransmission_count ip = k" "ip_time_out ip = CB_identification_t3470_handler"
    "tm_id (ip_T3470 ip) \<noteq> NAS_TIMER_INACTIVE_ID"
    "tm_cb (ip_T3470 ip) = CB_identification_t3470_handler"
    "tm_args (ip_T3470 ip) = Some c"
  using assms by (auto simp: awaiting_def split: option.splits)

lemma expiry_awaiting:
  assumes "awaiting st c p k"
  shows "T3470_expiry e p st = identification_t3470_handler e (Some c) st"
  using assms by (auto simp: T3470_expiry_def elim!: awaitingD)

text \<open>
  An expiry below the maximum, whatever the send primitive reports: the counter is
  incremented and the request is handed over; the timer is armed again exactly when the
  send primitive does not report an error.
\<close>

lemma handler_resend:
  assumes aw: "awaiting st c p k" and ctx: "emm_contexts st c = Some ctx"
    and ip: "ident_procs st p = Some ip"
    and lt: "Suc k < IDENTIFICATION_COUNTER_MAX e"
    and mx: "IDENTIFICATION_COUNTER_MAX e \<le> 2 ^ 32"
    and sent: "sent = st\<lparr> ident_procs := (ident_procs st)(p \<mapsto> ip
                 \<lparr> ip_T3470 := (ip_T3470 ip)\<lparr> tm_id := NAS_TIMER_INACTIVE_ID \<rparr>,
                   ip_retransmission_count := Suc k \<rparr>) \<rparr>"
  shows "\<exists>st' ip'. identification_t3470_handler e (Some c) st = Inr st' \<and>
           emm_contexts st' c = Some ctx \<and> ident_procs st' p = Some ip' \<and>
           ip_retransmission_count ip' = Suc k \<and>
           the_request st' c p = Some (identity_request ip ctx) \<and>
           (if sap_rc e sent (identity_request ip ctx) = RETURNerror
            then tm_id (ip_T3470 ip') = NAS_TIMER_INACTIVE_ID \<and>
                 trace st' = trace st @ [Ev_emm_sap_send (identity_request ip ctx)]
            else awaiting st' c p (Suc k) \<and>
                 trace st' = trace st @ [Ev_emm_sap_send (identity_request ip ctx),
                                         Ev_nas_start_T3470 (ctx_ue_id ctx)])"
proof -
  from aw ctx ip have f:
    "emm_data_context_get st (ctx_ue_id ctx) = Some c"
    "get_nas_common_procedure_identification ctx = Some p"
    "ip_ue_id ip = ctx_ue_id ctx"
    "ip_retransmission_count ip = k" "ip_time_out ip = CB_identification_t3470_handler"
    by (auto elim!: awaitingD)
  define ip1 where "ip1 = ip\<lparr> ip_T3470 := (ip_T3470 ip)\<lparr> tm_id := NAS_TIMER_INACTIVE_ID \<rparr>,
                   ip_retransmission_count := Suc k \<rparr>"
  have st1: "sent = st\<lparr> ident_procs := (ident_procs st)(p \<mapsto> ip1) \<rparr>"
    by (simp add: sent ip1_def)
  have r: "identity_request ip1 ctx = identity_request ip ctx"
    by (simp add: identity_request_def ip1_def)
  have a: "ident_procs sent p = Some ip1" by (simp add: st1)
  have b: "emm_data_context_get sent (ip_ue_id ip1) = Some c"
    using f by (simp add: st1 ip1_def emm_data_context_get_def)
  have c1: "emm_contexts sent c = Some ctx" using ctx by (simp add: st1)
  have u1: "ip_ue_id ip1 = ctx_ue_id ctx" using f(3) by (simp add: ip1_def)
  have t1: "trace sent = trace st" by (simp add: st1)
  have wrap: "Suc k = (ip_retransmission_count ip + 1) mod 2 ^ 32"
    using lt mx f(4) by simp
  have h: "identification_t3470_handler e (Some c) st =
             (case identification_request e p sent of
                Inl f \<Rightarrow> Inl f
              | Inr (rc, st2) \<Rightarrow> Inr st2)"
    unfolding sent by (rule handler_below_maximum [OF ctx f(2) ip wrap lt])
  show ?thesis
  proof (cases "sap_rc e sent (identity_request ip ctx) = RETURNerror")
    case True
    then have d: "sap_rc e sent (identity_request ip1 ctx) = RETURNerror" by (simp add: r)
    define st2 where "st2 = sent\<lparr> trace := trace sent @ [Ev_emm_sap_send (identity_request ip1 ctx)] \<rparr>"
    have req: "identification_request e p sent = Inr (RETURNerror, st2)"
      using identification_request_failed [OF a b c1 d] by (simp add: st2_def)
    have h2: "identification_t3470_handler e (Some c) st = Inr st2"
      by (simp add: h req)
    have f2: "emm_contexts st2 c = Some ctx" "ident_procs st2 p = Some ip1"
      "trace st2 = trace st @ [Ev_emm_sap_send (identity_request ip ctx)]"
      using c1 a t1 by (simp_all add: st2_def r)
    have i1: "ip_retransmission_count ip1 = Suc k"
      "tm_id (ip_T3470 ip1) = NAS_TIMER_INACTIVE_ID"
      by (simp_all add: ip1_def)
    have rq2: "the_request st2 c p = Some (identity_request ip ctx)"
      using f2 by (simp add: the_request_def r)
    show ?thesis using h2 f2 i1 rq2 True by auto
  next
    case False
    then have d: "sap_rc e sent (identity_request ip1 ctx) \<noteq> RETURNerror" by (simp add: r)
    note req = identification_request_sent [OF a b c1 d]
    define st2 where "st2 = snd (projr (identification_request e p sent))"
    have h2: "identification_t3470_handler e (Some c) st = Inr st2"
      by (simp add: h req st2_def)
    define ip2 where "ip2 = ip1\<lparr> ip_T3470 :=
         \<lparr> tm_id = int (next_timer_id sent), tm_cb = ip_time_out ip1, tm_args = Some c \<rparr> \<rparr>"
    have st2e: "st2 = sent\<lparr> ident_procs := (ident_procs sent)(p \<mapsto> ip2),
                  next_timer_id := Suc (next_timer_id sent),
                  trace := trace sent @ [Ev_emm_sap_send (identity_request ip1 ctx),
                                       Ev_nas_start_T3470 (ip_ue_id ip1)] \<rparr>"
      by (simp add: st2_def req ip2_def)
    have f2: "emm_contexts st2 c = Some ctx" "ident_procs st2 p = Some ip2"
      "emm_data_context_get st2 (ctx_ue_id ctx) = Some c"
      "trace st2 = trace st @ [Ev_emm_sap_send (identity_request ip ctx),
                               Ev_nas_start_T3470 (ctx_ue_id ctx)]"
      using c1 b u1 t1 by (simp_all add: st2e emm_data_context_get_def r)
    have aw2: "awaiting st2 c p (Suc k)"
      using f2 f by (simp add: awaiting_def ip2_def ip1_def NAS_TIMER_INACTIVE_ID_def)
    have i2: "ip_retransmission_count ip2 = Suc k" by (simp add: ip2_def ip1_def)
    have rq2: "the_request st2 c p = Some (identity_request ip ctx)"
      using f2 by (simp add: the_request_def identity_request_def ip2_def ip1_def)
    show ?thesis using h2 f2 aw2 i2 rq2 False by auto
  qed
qed

lemma handler_retry:
  assumes aw: "awaiting st c p k" and ctx: "emm_contexts st c = Some ctx"
    and rq: "the_request st c p = Some req"
    and lt: "Suc k < IDENTIFICATION_COUNTER_MAX e"
    and mx: "IDENTIFICATION_COUNTER_MAX e \<le> 2 ^ 32" and del: "request_delivered e"
  shows "\<exists>st'. identification_t3470_handler e (Some c) st = Inr st' \<and>
           awaiting st' c p (Suc k) \<and> emm_contexts st' c = Some ctx \<and>
           the_request st' c p = Some req \<and>
           trace st' = trace st @ [Ev_emm_sap_send req, Ev_nas_start_T3470 (ctx_ue_id ctx)]"
proof -
  from aw ctx obtain ip where ip: "ident_procs st p = Some ip"
    by (auto elim!: awaitingD)
  have r: "req = identity_request ip ctx"
    using rq ctx ip by (simp add: the_request_def)
  have d: "sap_rc e s (identity_request ip ctx) \<noteq> RETURNerror" for s
    using del by (simp add: request_delivered_def)
  from handler_resend [OF aw ctx ip lt mx refl, of ] d show ?thesis
    by (auto simp: r)
qed

lemma timeouts_retry:
  assumes "awaiting st c p k" "emm_contexts st c = Some ctx" "the_request st c p = Some req"
    "k + n < IDENTIFICATION_COUNTER_MAX e" "IDENTIFICATION_COUNTER_MAX e \<le> 2 ^ 32"
    "request_delivered e"
  shows "\<exists>st'. timeouts e p n st = Inr st' \<and> awaiting st' c p (k + n) \<and>
           emm_contexts st' c = Some ctx \<and> the_request st' c p = Some req \<and>
           trace st' = trace st @
             concat (replicate n [Ev_emm_sap_send req, Ev_nas_start_T3470 (ctx_ue_id ctx)])"
  using assms
proof (induction n arbitrary: st k)
  case 0
  then show ?case by simp
next
  case (Suc n)
  have lt: "Suc k < IDENTIFICATION_COUNTER_MAX e" using Suc.prems(4) by simp
  from handler_retry [OF Suc.prems(1) Suc.prems(2) Suc.prems(3) lt Suc.prems(5) Suc.prems(6)]
  obtain st1 where s1: "identification_t3470_handler e (Some c) st = Inr st1"
    "awaiting st1 c p (Suc k)" "emm_contexts st1 c = Some ctx" "the_request st1 c p = Some req"
    "trace st1 = trace st @ [Ev_emm_sap_send req, Ev_nas_start_T3470 (ctx_ue_id ctx)]"
    by blast
  have lt2: "Suc k + n < IDENTIFICATION_COUNTER_MAX e" using Suc.prems(4) by simp
  from Suc.IH [OF s1(2) s1(3) s1(4) lt2 Suc.prems(5) Suc.prems(6)]
  obtain st' where s': "timeouts e p n st1 = Inr st'" "awaiting st' c p (Suc k + n)"
    "emm_contexts st' c = Some ctx" "the_request st' c p = Some req"
    "trace st' = trace st1 @
       concat (replicate n [Ev_emm_sap_send req, Ev_nas_start_T3470 (ctx_ue_id ctx)])"
    by blast
  have "timeouts e p (Suc n) st = Inr st'"
    using s1(1) s'(1) expiry_awaiting [OF Suc.prems(1)] by simp
  with s' s1(5) show ?case by simp
qed

lemma timeouts_Suc_end:
  "timeouts e p (Suc n) st =
     (case timeouts e p n st of Inl f \<Rightarrow> Inl f | Inr st' \<Rightarrow> T3470_expiry e p st')"
proof (induction n arbitrary: st)
  case 0
  show ?case by (simp split: sum.splits)
next
  case (Suc n)
  show ?case
  proof (cases "T3470_expiry e p st")
    case (Inl f)
    then show ?thesis by simp
  next
    case (Inr s)
    have "timeouts e p (Suc (Suc n)) st = timeouts e p (Suc n) s"
      using Inr by simp
    also have "\<dots> = (case timeouts e p n s of Inl f \<Rightarrow> Inl f | Inr st' \<Rightarrow> T3470_expiry e p st')"
      by (rule Suc.IH)
    also have "\<dots> = (case timeouts e p (Suc n) st of Inl f \<Rightarrow> Inl f | Inr st' \<Rightarrow> T3470_expiry e p st')"
      using Inr by simp
    finally show ?thesis .
  qed
qed

subsection \<open>The timer is armed by the send routine only\<close>

text \<open>
  Claim C10. The send routine \<^verbatim>\<open>_identification_request\<close> returns
  \<^verbatim>\<open>RETURNerror\<close> with the state unchanged when the store has no context for the
  identifier of the procedure. When it returns an error after the send, it has logged
  the request at most and has not touched any procedure, hence no timer. When it
  returns another code, that code is the one reported by the send primitive, and the
  calls it has made are the request followed by the start of T3470. The three paths
  that send an identity request (the start of the procedure, the handler of the expiry
  and the handler of the non-delivery during handover) add to the log only starts of
  T3470 that directly follow an identity request for the same subscriber.
\<close>

theorem timer_armed_only_after_request:
  "(ident_procs st p = Some proc \<and> emm_data_context_get st (ip_ue_id proc) = None \<longrightarrow>
      identification_request e p st = Inr (RETURNerror, st)) \<and>
   (identification_request e p st = Inr (rc, st') \<longrightarrow>
      (\<exists>tr. trace st' = trace st @ tr \<and>
         (if rc = RETURNerror
          then ident_procs st' = ident_procs st \<and>
               (tr = [] \<or> (\<exists>m. tr = [Ev_emm_sap_send (EMMAS_SECURITY_REQ m)]))
          else \<exists>m. rc = sap_rc e st (EMMAS_SECURITY_REQ m) \<and>
                 tr = [Ev_emm_sap_send (EMMAS_SECURITY_REQ m), Ev_nas_start_T3470 (sec_ue_id m)]))) \<and>
   (emm_proc_identification e c0 parent type success failure st = Inr (rc1, st1) \<longrightarrow>
      (\<exists>tr. trace st1 = trace st @ tr \<and> armed_after_request None tr)) \<and>
   (identification_t3470_handler e args st = Inr st2 \<longrightarrow>
      (\<exists>tr. trace st2 = trace st @ tr \<and> armed_after_request None tr)) \<and>
   (identification_non_delivered_ho e c0 p0 st = Inr (rc3, st3) \<longrightarrow>
      (\<exists>tr. trace st3 = trace st @ tr \<and> armed_after_request None tr))"
proof (intro conjI impI)
  assume "ident_procs st p = Some proc \<and> emm_data_context_get st (ip_ue_id proc) = None"
  then show "identification_request e p st = Inr (RETURNerror, st)"
    by (simp add: identification_request_absent)
next
  assume a: "identification_request e p st = Inr (rc, st')"
  from identification_request_outcome [OF a] obtain proc where
    "ident_procs st p = Some proc"
    "if rc = RETURNerror
            then st' = st \<or> (\<exists>ctx. st' = st\<lparr> trace := trace st @ [Ev_emm_sap_send (identity_request proc ctx)] \<rparr>)
            else \<exists>c ctx. emm_data_context_get st (ip_ue_id proc) = Some c \<and> emm_contexts st c = Some ctx \<and>
                   rc = sap_rc e st (identity_request proc ctx) \<and>
                   st' = st\<lparr> ident_procs := (ident_procs st)(p \<mapsto> proc\<lparr> ip_T3470 :=
                              \<lparr> tm_id = int (next_timer_id st), tm_cb = ip_time_out proc, tm_args = Some c \<rparr> \<rparr>),
                            next_timer_id := Suc (next_timer_id st),
                            trace := trace st @ [Ev_emm_sap_send (identity_request proc ctx),
                                                 Ev_nas_start_T3470 (ip_ue_id proc)] \<rparr>" by blast
  then show "\<exists>tr. trace st' = trace st @ tr \<and>
         (if rc = RETURNerror
          then ident_procs st' = ident_procs st \<and>
               (tr = [] \<or> (\<exists>m. tr = [Ev_emm_sap_send (EMMAS_SECURITY_REQ m)]))
          else \<exists>m. rc = sap_rc e st (EMMAS_SECURITY_REQ m) \<and>
                 tr = [Ev_emm_sap_send (EMMAS_SECURITY_REQ m), Ev_nas_start_T3470 (sec_ue_id m)])"
    by (cases "rc = RETURNerror") (auto simp: identity_request_def)
next
  assume "emm_proc_identification e c0 parent type success failure st = Inr (rc1, st1)"
  then show "\<exists>tr. trace st1 = trace st @ tr \<and> armed_after_request None tr"
    by (rule start_trace)
next
  assume "identification_t3470_handler e args st = Inr st2"
  then show "\<exists>tr. trace st2 = trace st @ tr \<and> armed_after_request None tr"
    by (rule handler_trace)
next
  assume "identification_non_delivered_ho e c0 p0 st = Inr (rc3, st3)"
  then show "\<exists>tr. trace st3 = trace st @ tr \<and> armed_after_request None tr"
    by (rule non_delivered_ho_trace)
qed


theorem timer_armed_only_after_request_witness:
  "ident_procs (ex_st_gone 0) 0 = Some (ex_ip 0) \<and>
   emm_data_context_get (ex_st_gone 0) (ip_ue_id (ex_ip 0)) = None \<and>
   identification_request ex_env_ok 0 (ex_st_gone 0) = Inr (RETURNerror, ex_st_gone 0) \<and>
   (\<exists>rc st' m. identification_request ex_env_ok 0 (ex_st_wait 0) = Inr (rc, st') \<and>
      rc \<noteq> RETURNerror \<and>
      trace st' = [Ev_emm_sap_send (EMMAS_SECURITY_REQ m), Ev_nas_start_T3470 (sec_ue_id m)]) \<and>
   (\<exists>rc st'. emm_proc_identification ex_env_ok (Some 4) (Some 5) IDENTITY_TYPE_2_IMSI
        (CB_extern 2) (CB_extern 3) ex_st0 = Inr (rc, st') \<and>
      armed_after_request None (trace st')) \<and>
   (\<exists>st'. identification_t3470_handler ex_env_ok (Some 4) (ex_st_wait 0) = Inr st' \<and>
      armed_after_request None (trace st')) \<and>
   (\<exists>rc st'. identification_non_delivered_ho ex_env_ok (Some 4) (Some 0) (ex_st_wait 0) = Inr (rc, st') \<and>
      armed_after_request None (trace st'))"
proof -
  have a: "ident_procs (ex_st_gone 0) 0 = Some (ex_ip 0) \<and>
           emm_data_context_get (ex_st_gone 0) (ip_ue_id (ex_ip 0)) = None"
    by (simp add: ex_wait_facts)
  have b: "identification_request ex_env_ok 0 (ex_st_gone 0) = Inr (RETURNerror, ex_st_gone 0)"
    using a timer_armed_only_after_request [where st = "ex_st_gone 0" and p = 0 and proc = "ex_ip 0"
        and e = ex_env_ok, THEN conjunct1]
    by blast
  have d: "sap_rc ex_env_ok (ex_st_wait 0) (identity_request (ex_ip 0) ex_ctx_wait) \<noteq> RETURNerror"
    by (simp add: ex_env_facts)
  have g: "emm_data_context_get (ex_st_wait 0) (ip_ue_id (ex_ip 0)) = Some 4"
    by (simp add: ex_wait_facts)
  from identification_request_sent [OF ex_wait_facts(3) g ex_wait_facts(1) d]
  obtain rc2 s2 where r2: "identification_request ex_env_ok 0 (ex_st_wait 0) = Inr (rc2, s2)"
    "rc2 \<noteq> RETURNerror"
    by (simp add: ex_env_facts)
  from timer_armed_only_after_request [where st = "ex_st_wait 0" and p = 0 and e = ex_env_ok
      and rc = rc2 and st' = s2, THEN conjunct2, THEN conjunct1, THEN mp, OF r2(1)] r2(2)
  have c: "\<exists>m. trace s2 = [Ev_emm_sap_send (EMMAS_SECURITY_REQ m), Ev_nas_start_T3470 (sec_ue_id m)]"
    by (auto simp: ex_wait_facts)
  from start_effect [OF ex_start_facts(1) _ ex_start_facts(7) ex_start_facts(8) ex_start_facts(9),
      of "Some 5" IDENTITY_TYPE_2_IMSI "CB_extern 2" "CB_extern 3"]
  obtain rc3 s3 where r3: "emm_proc_identification ex_env_ok (Some 4) (Some 5) IDENTITY_TYPE_2_IMSI
        (CB_extern 2) (CB_extern 3) ex_st0 = Inr (rc3, s3)"
    by (auto simp: ex_start_facts)
  from timer_armed_only_after_request [where st = ex_st0 and e = ex_env_ok and ?c0.0 = "Some 4"
      and parent = "Some 5" and type = IDENTITY_TYPE_2_IMSI and success = "CB_extern 2"
      and failure = "CB_extern 3" and ?rc1.0 = rc3 and ?st1.0 = s3,
      THEN conjunct2, THEN conjunct2, THEN conjunct1, THEN mp, OF r3]
  have e3: "armed_after_request None (trace s3)"
    by (auto simp: ex_start_facts)
  have lt: "Suc 0 < IDENTIFICATION_COUNTER_MAX ex_env_ok" by (simp add: ex_wait_facts)
  have mx: "IDENTIFICATION_COUNTER_MAX ex_env_ok \<le> 2 ^ 32" by (simp add: ex_wait_facts)
  from handler_retry [OF ex_awaiting(1) ex_wait_facts(1) ex_awaiting(2) lt mx ex_env_facts(1)]
  obtain s4 where r4: "identification_t3470_handler ex_env_ok (Some 4) (ex_st_wait 0) = Inr s4"
    by blast
  from timer_armed_only_after_request [where st = "ex_st_wait 0" and e = ex_env_ok
      and args = "Some 4" and ?st2.0 = s4,
      THEN conjunct2, THEN conjunct2, THEN conjunct2, THEN conjunct1, THEN mp, OF r4]
  have e4: "armed_after_request None (trace s4)"
    by (auto simp: ex_wait_facts)
  have r5: "identification_non_delivered_ho ex_env_ok (Some 4) (Some 0) (ex_st_wait 0) = Inr (rc2, s2)"
    using r2 by (simp add: identification_non_delivered_ho_def)
  from timer_armed_only_after_request [where st = "ex_st_wait 0" and e = ex_env_ok
      and ?c0.0 = "Some 4" and ?p0.0 = "Some 0" and ?rc3.0 = rc2 and ?st3.0 = s2,
      THEN conjunct2, THEN conjunct2, THEN conjunct2, THEN conjunct2, THEN mp, OF r5]
  have e5: "armed_after_request None (trace s2)"
    by (auto simp: ex_wait_facts)
  show ?thesis
    using a b r2 c r3 e3 r4 e4 r5 e5 by blast
qed

subsection \<open>Retransmission below the maximum\<close>

text \<open>
  Claim C1, amended. For a live subscriber whose Identification procedure awaits a
  response with counter \<open>k\<close>, and a maximum within the range of the counter, the
  expiry of T3470 with \<open>k + 1\<close> below the maximum increments the counter to \<open>k + 1\<close>
  and hands the same identity request to the access stratum once, whatever the send
  primitive reports, and the procedure stays the procedure of the context. It arms the
  timer again, leaving the procedure awaiting with counter \<open>k + 1\<close>, when the send
  primitive does not report an error; when it reports an error the timer stays
  inactive, and a further expiry does nothing. Hence, where every identity request is
  delivered, after the start of the procedure for a live subscriber in a permitted
  state every number \<open>n\<close> of expiries below the maximum leaves the procedure awaiting
  with counter \<open>n\<close> and has sent the request \<open>n\<close> more times. The identity request
  is written out; \<open>sent\<close> is the state in which the handler hands it over. The expiry
  that reaches the maximum is the subject of claim C3.
\<close>

theorem timeout_below_maximum_resends:
  "(awaiting st c p k \<and> emm_contexts st c = Some ctx \<and> ident_procs st p = Some ip \<and>
    Suc k < IDENTIFICATION_COUNTER_MAX e \<and> IDENTIFICATION_COUNTER_MAX e \<le> 2 ^ 32 \<and>
    req = EMMAS_SECURITY_REQ
            \<lparr> sec_puid = ip_nas_puid ip, sec_guti = None, sec_ue_id = ctx_ue_id ctx,
              sec_msg_type = EMM_AS_MSG_TYPE_IDENT, sec_ident_type = ip_identity_type ip,
              sec_sctx = (ctx_security ctx, False, True) \<rparr> \<and>
    sent = st\<lparr> ident_procs := (ident_procs st)(p \<mapsto> ip
              \<lparr> ip_T3470 := (ip_T3470 ip)\<lparr> tm_id := NAS_TIMER_INACTIVE_ID \<rparr>,
                ip_retransmission_count := Suc k \<rparr>) \<rparr> \<longrightarrow>
      (\<exists>st' ip'. T3470_expiry e p st = Inr st' \<and> emm_contexts st' c = Some ctx \<and>
         ident_procs st' p = Some ip' \<and> ip_retransmission_count ip' = Suc k \<and>
         (sap_rc e sent req \<noteq> RETURNerror \<longrightarrow>
            awaiting st' c p (Suc k) \<and>
            trace st' = trace st @ [Ev_emm_sap_send req, Ev_nas_start_T3470 (ctx_ue_id ctx)]) \<and>
         (sap_rc e sent req = RETURNerror \<longrightarrow>
            tm_id (ip_T3470 ip') = NAS_TIMER_INACTIVE_ID \<and>
            trace st' = trace st @ [Ev_emm_sap_send req] \<and>
            T3470_expiry e p st' = Inr st'))) \<and>
   (registered st c ctx \<and> ident_valid st ctx \<and>
    (ctx_emm_fsm_state ctx = EMM_DEREGISTERED \<or> ctx_emm_fsm_state ctx = EMM_REGISTERED) \<and>
    request_delivered e \<and> IDENTIFICATION_COUNTER_MAX e \<le> 2 ^ 32 \<longrightarrow>
      (\<exists>rc st0 q m.
         emm_proc_identification e (Some c) parent type success failure st = Inr (rc, st0) \<and>
         awaiting st0 c q 0 \<and>
         sec_ue_id m = ctx_ue_id ctx \<and> sec_msg_type m = EMM_AS_MSG_TYPE_IDENT \<and>
         (\<forall>n < IDENTIFICATION_COUNTER_MAX e.
            \<exists>stn. timeouts e q n st0 = Inr stn \<and> awaiting stn c q n \<and>
              trace stn = trace st0 @
                concat (replicate n [Ev_emm_sap_send (EMMAS_SECURITY_REQ m),
                                     Ev_nas_start_T3470 (ctx_ue_id ctx)]))))"
proof (intro conjI impI)
  assume h: "awaiting st c p k \<and> emm_contexts st c = Some ctx \<and> ident_procs st p = Some ip \<and>
    Suc k < IDENTIFICATION_COUNTER_MAX e \<and> IDENTIFICATION_COUNTER_MAX e \<le> 2 ^ 32 \<and>
    req = EMMAS_SECURITY_REQ
            \<lparr> sec_puid = ip_nas_puid ip, sec_guti = None, sec_ue_id = ctx_ue_id ctx,
              sec_msg_type = EMM_AS_MSG_TYPE_IDENT, sec_ident_type = ip_identity_type ip,
              sec_sctx = (ctx_security ctx, False, True) \<rparr> \<and>
    sent = st\<lparr> ident_procs := (ident_procs st)(p \<mapsto> ip
              \<lparr> ip_T3470 := (ip_T3470 ip)\<lparr> tm_id := NAS_TIMER_INACTIVE_ID \<rparr>,
                ip_retransmission_count := Suc k \<rparr>) \<rparr>"
  then have aw: "awaiting st c p k" and ctx: "emm_contexts st c = Some ctx"
    and ip: "ident_procs st p = Some ip" and lt: "Suc k < IDENTIFICATION_COUNTER_MAX e"
    and mx: "IDENTIFICATION_COUNTER_MAX e \<le> 2 ^ 32"
    and sent: "sent = st\<lparr> ident_procs := (ident_procs st)(p \<mapsto> ip
              \<lparr> ip_T3470 := (ip_T3470 ip)\<lparr> tm_id := NAS_TIMER_INACTIVE_ID \<rparr>,
                ip_retransmission_count := Suc k \<rparr>) \<rparr>"
    by simp_all
  from aw ctx ip have ue: "ip_ue_id ip = ctx_ue_id ctx" by (auto elim!: awaitingD)
  from h ue have req: "req = identity_request ip ctx" by (simp add: identity_request_def)
  from handler_resend [OF aw ctx ip lt mx sent] obtain st' ip' where r:
    "identification_t3470_handler e (Some c) st = Inr st'"
    "emm_contexts st' c = Some ctx" "ident_procs st' p = Some ip'"
    "ip_retransmission_count ip' = Suc k"
    "if sap_rc e sent req = RETURNerror
     then tm_id (ip_T3470 ip') = NAS_TIMER_INACTIVE_ID \<and>
          trace st' = trace st @ [Ev_emm_sap_send req]
     else awaiting st' c p (Suc k) \<and>
          trace st' = trace st @ [Ev_emm_sap_send req, Ev_nas_start_T3470 (ctx_ue_id ctx)]"
    unfolding req by blast
  have x: "T3470_expiry e p st = Inr st'"
    using r(1) expiry_awaiting [OF aw, of e] by simp
  have ok: "awaiting st' c p (Suc k) \<and>
            trace st' = trace st @ [Ev_emm_sap_send req, Ev_nas_start_T3470 (ctx_ue_id ctx)]"
    if "sap_rc e sent req \<noteq> RETURNerror"
    using r(5) that by simp
  have ko: "tm_id (ip_T3470 ip') = NAS_TIMER_INACTIVE_ID \<and>
            trace st' = trace st @ [Ev_emm_sap_send req] \<and>
            T3470_expiry e p st' = Inr st'"
    if "sap_rc e sent req = RETURNerror"
    using r(5) r(3) that by (simp add: T3470_expiry_def)
  show "\<exists>st' ip'. T3470_expiry e p st = Inr st' \<and> emm_contexts st' c = Some ctx \<and>
         ident_procs st' p = Some ip' \<and> ip_retransmission_count ip' = Suc k \<and>
         (sap_rc e sent req \<noteq> RETURNerror \<longrightarrow>
            awaiting st' c p (Suc k) \<and>
            trace st' = trace st @ [Ev_emm_sap_send req, Ev_nas_start_T3470 (ctx_ue_id ctx)]) \<and>
         (sap_rc e sent req = RETURNerror \<longrightarrow>
            tm_id (ip_T3470 ip') = NAS_TIMER_INACTIVE_ID \<and>
            trace st' = trace st @ [Ev_emm_sap_send req] \<and>
            T3470_expiry e p st' = Inr st')"
    using x r(2) r(3) r(4) ok ko by blast
next
  assume h: "registered st c ctx \<and> ident_valid st ctx \<and>
    (ctx_emm_fsm_state ctx = EMM_DEREGISTERED \<or> ctx_emm_fsm_state ctx = EMM_REGISTERED) \<and>
    request_delivered e \<and> IDENTIFICATION_COUNTER_MAX e \<le> 2 ^ 32"
  then have ctx: "emm_contexts st c = Some ctx" and ok:
    "ctx_emm_fsm_state ctx = EMM_DEREGISTERED \<or> ctx_emm_fsm_state ctx = EMM_REGISTERED"
    and reg: "registered st c ctx" and val: "ident_valid st ctx"
    and del: "request_delivered e" and mx: "IDENTIFICATION_COUNTER_MAX e \<le> 2 ^ 32"
    by (auto simp: registered_def)
  from start_effect [OF ctx ok reg val del, of parent type success failure]
  obtain rc st0 q rq ctx0 where s:
    "emm_proc_identification e (Some c) parent type success failure st = Inr (rc, st0)"
    "awaiting st0 c q 0" "the_request st0 c q = Some rq"
    "emm_contexts st0 c = Some ctx0" "ctx_ue_id ctx0 = ctx_ue_id ctx"
    by (auto split: option.splits)
  from s(2) s(4) obtain ip0 where i0: "ident_procs st0 q = Some ip0"
    "ip_ue_id ip0 = ctx_ue_id ctx0"
    by (auto elim!: awaitingD)
  define m where "m = \<lparr> sec_puid = ip_nas_puid ip0, sec_guti = None, sec_ue_id = ip_ue_id ip0,
         sec_msg_type = EMM_AS_MSG_TYPE_IDENT, sec_ident_type = ip_identity_type ip0,
         sec_sctx = (ctx_security ctx0, False, True) \<rparr>"
  have rq: "rq = EMMAS_SECURITY_REQ m"
    using s(3) s(4) i0(1) by (simp add: the_request_def identity_request_def m_def)
  have mf: "sec_ue_id m = ctx_ue_id ctx" "sec_msg_type m = EMM_AS_MSG_TYPE_IDENT"
    using i0(2) s(5) by (simp_all add: m_def)
  have steps: "\<exists>stn. timeouts e q n st0 = Inr stn \<and> awaiting stn c q n \<and>
                trace stn = trace st0 @
                  concat (replicate n [Ev_emm_sap_send (EMMAS_SECURITY_REQ m),
                                       Ev_nas_start_T3470 (ctx_ue_id ctx)])"
    if "n < IDENTIFICATION_COUNTER_MAX e" for n
  proof -
    have "0 + n < IDENTIFICATION_COUNTER_MAX e" using that by simp
    from timeouts_retry [OF s(2) s(4) s(3) this mx del] s(5) rq show ?thesis by auto
  qed
  from s(1) s(2) mf steps
  show "\<exists>rc st0 q m.
         emm_proc_identification e (Some c) parent type success failure st = Inr (rc, st0) \<and>
         awaiting st0 c q 0 \<and>
         sec_ue_id m = ctx_ue_id ctx \<and> sec_msg_type m = EMM_AS_MSG_TYPE_IDENT \<and>
         (\<forall>n < IDENTIFICATION_COUNTER_MAX e.
            \<exists>stn. timeouts e q n st0 = Inr stn \<and> awaiting stn c q n \<and>
              trace stn = trace st0 @
                concat (replicate n [Ev_emm_sap_send (EMMAS_SECURITY_REQ m),
                                     Ev_nas_start_T3470 (ctx_ue_id ctx)]))"
    by blast
qed

theorem timeout_below_maximum_resends_witness:
  "awaiting (ex_st_wait 0) 4 0 0 \<and> emm_contexts (ex_st_wait 0) 4 = Some ex_ctx_wait \<and>
   ident_procs (ex_st_wait 0) 0 = Some (ex_ip 0) \<and>
   Suc 0 < IDENTIFICATION_COUNTER_MAX ex_env_ok \<and> IDENTIFICATION_COUNTER_MAX ex_env_ok \<le> 2 ^ 32 \<and>
   (\<exists>st'. T3470_expiry ex_env_ok 0 (ex_st_wait 0) = Inr st' \<and> awaiting st' 4 0 (Suc 0) \<and>
      trace st' = [Ev_emm_sap_send (EMMAS_SECURITY_REQ
         \<lparr> sec_puid = 0, sec_guti = None, sec_ue_id = 7, sec_msg_type = EMM_AS_MSG_TYPE_IDENT,
           sec_ident_type = IDENTITY_TYPE_2_IMSI, sec_sctx = (0, False, True) \<rparr>), Ev_nas_start_T3470 7]) \<and>
   Suc 0 < IDENTIFICATION_COUNTER_MAX ex_env_fail \<and> IDENTIFICATION_COUNTER_MAX ex_env_fail \<le> 2 ^ 32 \<and>
   (\<exists>st' ip'. T3470_expiry ex_env_fail 0 (ex_st_wait 0) = Inr st' \<and>
      ident_procs st' 0 = Some ip' \<and> ip_retransmission_count ip' = Suc 0 \<and>
      tm_id (ip_T3470 ip') = NAS_TIMER_INACTIVE_ID \<and>
      trace st' = [Ev_emm_sap_send (EMMAS_SECURITY_REQ
         \<lparr> sec_puid = 0, sec_guti = None, sec_ue_id = 7, sec_msg_type = EMM_AS_MSG_TYPE_IDENT,
           sec_ident_type = IDENTITY_TYPE_2_IMSI, sec_sctx = (0, False, True) \<rparr>)] \<and>
      T3470_expiry ex_env_fail 0 st' = Inr st') \<and>
   registered ex_st0 4 ex_ctx \<and> ident_valid ex_st0 ex_ctx \<and>
   ctx_emm_fsm_state ex_ctx = EMM_DEREGISTERED \<and> request_delivered ex_env_ok \<and>
   (\<exists>rc st0 q.
      emm_proc_identification ex_env_ok (Some 4) (Some 5) IDENTITY_TYPE_2_IMSI
        (CB_extern 2) (CB_extern 3) ex_st0 = Inr (rc, st0) \<and>
      awaiting st0 4 q 0 \<and>
      (\<exists>st4. timeouts ex_env_ok q 4 st0 = Inr st4 \<and> awaiting st4 4 q 4))"
proof -
  define req where "req = EMMAS_SECURITY_REQ
         \<lparr> sec_puid = 0, sec_guti = None, sec_ue_id = 7, sec_msg_type = EMM_AS_MSG_TYPE_IDENT,
           sec_ident_type = IDENTITY_TYPE_2_IMSI, sec_sctx = (0, False, True) \<rparr>"
  define sent where "sent = (ex_st_wait 0)\<lparr> ident_procs := (ident_procs (ex_st_wait 0))(0 \<mapsto> (ex_ip 0)
              \<lparr> ip_T3470 := (ip_T3470 (ex_ip 0))\<lparr> tm_id := NAS_TIMER_INACTIVE_ID \<rparr>,
                ip_retransmission_count := Suc 0 \<rparr>) \<rparr>"
  have rq: "req = EMMAS_SECURITY_REQ
            \<lparr> sec_puid = ip_nas_puid (ex_ip 0), sec_guti = None, sec_ue_id = ctx_ue_id ex_ctx_wait,
              sec_msg_type = EMM_AS_MSG_TYPE_IDENT, sec_ident_type = ip_identity_type (ex_ip 0),
              sec_sctx = (ctx_security ex_ctx_wait, False, True) \<rparr>"
    by (simp add: req_def ex_ip_def ex_ctx_wait_def ex_ctx_def)
  have mx: "IDENTIFICATION_COUNTER_MAX ex_env_ok \<le> 2 ^ 32"
    "IDENTIFICATION_COUNTER_MAX ex_env_fail \<le> 2 ^ 32"
    "Suc 0 < IDENTIFICATION_COUNTER_MAX ex_env_ok" "Suc 0 < IDENTIFICATION_COUNTER_MAX ex_env_fail"
    by (simp_all add: ex_wait_facts)
  have h1: "awaiting (ex_st_wait 0) 4 0 0 \<and> emm_contexts (ex_st_wait 0) 4 = Some ex_ctx_wait \<and>
    ident_procs (ex_st_wait 0) 0 = Some (ex_ip 0) \<and>
    Suc 0 < IDENTIFICATION_COUNTER_MAX ex_env_ok \<and> IDENTIFICATION_COUNTER_MAX ex_env_ok \<le> 2 ^ 32 \<and>
    req = EMMAS_SECURITY_REQ
            \<lparr> sec_puid = ip_nas_puid (ex_ip 0), sec_guti = None, sec_ue_id = ctx_ue_id ex_ctx_wait,
              sec_msg_type = EMM_AS_MSG_TYPE_IDENT, sec_ident_type = ip_identity_type (ex_ip 0),
              sec_sctx = (ctx_security ex_ctx_wait, False, True) \<rparr> \<and>
    sent = (ex_st_wait 0)\<lparr> ident_procs := (ident_procs (ex_st_wait 0))(0 \<mapsto> (ex_ip 0)
              \<lparr> ip_T3470 := (ip_T3470 (ex_ip 0))\<lparr> tm_id := NAS_TIMER_INACTIVE_ID \<rparr>,
                ip_retransmission_count := Suc 0 \<rparr>) \<rparr>"
    using ex_awaiting(1) [of 0] ex_wait_facts(1) [of 0] ex_wait_facts(3) [of 0] mx(1) mx(3) rq
    by (simp add: sent_def)
  have h2: "awaiting (ex_st_wait 0) 4 0 0 \<and> emm_contexts (ex_st_wait 0) 4 = Some ex_ctx_wait \<and>
    ident_procs (ex_st_wait 0) 0 = Some (ex_ip 0) \<and>
    Suc 0 < IDENTIFICATION_COUNTER_MAX ex_env_fail \<and> IDENTIFICATION_COUNTER_MAX ex_env_fail \<le> 2 ^ 32 \<and>
    req = EMMAS_SECURITY_REQ
            \<lparr> sec_puid = ip_nas_puid (ex_ip 0), sec_guti = None, sec_ue_id = ctx_ue_id ex_ctx_wait,
              sec_msg_type = EMM_AS_MSG_TYPE_IDENT, sec_ident_type = ip_identity_type (ex_ip 0),
              sec_sctx = (ctx_security ex_ctx_wait, False, True) \<rparr> \<and>
    sent = (ex_st_wait 0)\<lparr> ident_procs := (ident_procs (ex_st_wait 0))(0 \<mapsto> (ex_ip 0)
              \<lparr> ip_T3470 := (ip_T3470 (ex_ip 0))\<lparr> tm_id := NAS_TIMER_INACTIVE_ID \<rparr>,
                ip_retransmission_count := Suc 0 \<rparr>) \<rparr>"
    using ex_awaiting(1) [of 0] ex_wait_facts(1) [of 0] ex_wait_facts(3) [of 0] mx(2) mx(4) rq
    by (simp add: sent_def)
  have ok: "sap_rc ex_env_ok sent req \<noteq> RETURNerror"
    and ko: "sap_rc ex_env_fail sent req = RETURNerror"
    by (simp_all add: ex_env_facts)
  from timeout_below_maximum_resends [where st = "ex_st_wait 0" and c = 4 and p = 0 and k = 0
      and ctx = ex_ctx_wait and ip = "ex_ip 0" and e = ex_env_ok and req = req and sent = sent,
      THEN conjunct1, THEN mp, OF h1]
  obtain s1 where a1: "T3470_expiry ex_env_ok 0 (ex_st_wait 0) = Inr s1"
    "sap_rc ex_env_ok sent req \<noteq> RETURNerror \<longrightarrow>
       awaiting s1 4 0 (Suc 0) \<and>
       trace s1 = trace (ex_st_wait 0) @
         [Ev_emm_sap_send req, Ev_nas_start_T3470 (ctx_ue_id ex_ctx_wait)]"
    by blast
  from a1(2) ok have a2: "awaiting s1 4 0 (Suc 0)"
    "trace s1 = [Ev_emm_sap_send req, Ev_nas_start_T3470 7]"
    by (simp_all add: ex_wait_facts ex_awaiting)
  have a: "\<exists>st'. T3470_expiry ex_env_ok 0 (ex_st_wait 0) = Inr st' \<and> awaiting st' 4 0 (Suc 0) \<and>
      trace st' = [Ev_emm_sap_send req, Ev_nas_start_T3470 7]"
    using a1(1) a2 by blast
  from timeout_below_maximum_resends [where st = "ex_st_wait 0" and c = 4 and p = 0 and k = 0
      and ctx = ex_ctx_wait and ip = "ex_ip 0" and e = ex_env_fail and req = req and sent = sent,
      THEN conjunct1, THEN mp, OF h2]
  obtain s2 i2 where b1: "T3470_expiry ex_env_fail 0 (ex_st_wait 0) = Inr s2"
    "ident_procs s2 0 = Some i2" "ip_retransmission_count i2 = Suc 0"
    "sap_rc ex_env_fail sent req = RETURNerror \<longrightarrow>
       tm_id (ip_T3470 i2) = NAS_TIMER_INACTIVE_ID \<and>
       trace s2 = trace (ex_st_wait 0) @ [Ev_emm_sap_send req] \<and>
       T3470_expiry ex_env_fail 0 s2 = Inr s2"
    by blast
  from b1(4) ko have b2: "tm_id (ip_T3470 i2) = NAS_TIMER_INACTIVE_ID"
    "trace s2 = [Ev_emm_sap_send req]" "T3470_expiry ex_env_fail 0 s2 = Inr s2"
    by (simp_all add: ex_wait_facts)
  have b: "\<exists>st' ip'. T3470_expiry ex_env_fail 0 (ex_st_wait 0) = Inr st' \<and>
      ident_procs st' 0 = Some ip' \<and> ip_retransmission_count ip' = Suc 0 \<and>
      tm_id (ip_T3470 ip') = NAS_TIMER_INACTIVE_ID \<and>
      trace st' = [Ev_emm_sap_send req] \<and>
      T3470_expiry ex_env_fail 0 st' = Inr st'"
    using b1(1) b1(2) b1(3) b2 by blast
  have hs: "registered ex_st0 4 ex_ctx \<and> ident_valid ex_st0 ex_ctx \<and>
      (ctx_emm_fsm_state ex_ctx = EMM_DEREGISTERED \<or> ctx_emm_fsm_state ex_ctx = EMM_REGISTERED) \<and>
      request_delivered ex_env_ok \<and> IDENTIFICATION_COUNTER_MAX ex_env_ok \<le> 2 ^ 32"
    using mx(1) by (simp add: ex_start_facts)
  from timeout_below_maximum_resends [where st = ex_st0 and c = 4 and ctx = ex_ctx and e = ex_env_ok
      and parent = "Some 5" and type = IDENTITY_TYPE_2_IMSI and success = "CB_extern 2"
      and failure = "CB_extern 3", THEN conjunct2, THEN mp, OF hs]
  obtain rc st0 q m where s:
    "emm_proc_identification ex_env_ok (Some 4) (Some 5) IDENTITY_TYPE_2_IMSI
        (CB_extern 2) (CB_extern 3) ex_st0 = Inr (rc, st0)"
    "awaiting st0 4 q 0"
    "\<forall>n < IDENTIFICATION_COUNTER_MAX ex_env_ok.
              \<exists>stn. timeouts ex_env_ok q n st0 = Inr stn \<and> awaiting stn 4 q n \<and>
                trace stn = trace st0 @
                  concat (replicate n [Ev_emm_sap_send (EMMAS_SECURITY_REQ m),
                                       Ev_nas_start_T3470 (ctx_ue_id ex_ctx)])"
    by blast
  have "(4::nat) < IDENTIFICATION_COUNTER_MAX ex_env_ok" by (simp add: ex_wait_facts)
  with s(3) have c4: "\<exists>st4. timeouts ex_env_ok q 4 st0 = Inr st4 \<and> awaiting st4 4 q 4" by blast
  have c: "\<exists>rc st0 q.
      emm_proc_identification ex_env_ok (Some 4) (Some 5) IDENTITY_TYPE_2_IMSI
        (CB_extern 2) (CB_extern 3) ex_st0 = Inr (rc, st0) \<and>
      awaiting st0 4 q 0 \<and>
      (\<exists>st4. timeouts ex_env_ok q 4 st0 = Inr st4 \<and> awaiting st4 4 q 4)"
    using s(1) s(2) c4 by blast
  show ?thesis
    unfolding req_def [symmetric]
    using ex_awaiting(1) [of 0] ex_wait_facts(1) [of 0] ex_wait_facts(3) [of 0] mx a b c
      ex_start_facts(3) ex_start_facts(7) ex_start_facts(8) ex_start_facts(9)
    by blast
qed

text \<open>
  Claim C1 as stated fails where the send primitive reports an error: the counter goes
  from 0 to 1, below the maximum of 5, the request is handed over once, but the timer
  is not armed again, so that the procedure no longer awaits a response and a further
  expiry does nothing.
\<close>

theorem retransmission_without_delivery_counterexample:
  "awaiting (ex_st_wait 0) 4 0 0 \<and>
   Suc 0 < IDENTIFICATION_COUNTER_MAX ex_env_fail \<and>
   T3470_expiry ex_env_fail 0 (ex_st_wait 0) = Inr ex_st_failed \<and>
   ident_procs ex_st_failed 0 = Some ex_ip_failed \<and>
   ip_retransmission_count ex_ip_failed = Suc 0 \<and>
   tm_id (ip_T3470 ex_ip_failed) = NAS_TIMER_INACTIVE_ID \<and>
   \<not> awaiting ex_st_failed 4 0 (Suc 0) \<and>
   T3470_expiry ex_env_fail 0 ex_st_failed = Inr ex_st_failed"
proof -
  have g: "emm_data_context_get (ex_st_wait 0) 7 = Some 4" by (simp add: ex_wait_facts)
  define ip1 where "ip1 = (ex_ip 0)\<lparr> ip_T3470 := (ip_T3470 (ex_ip 0))\<lparr> tm_id := NAS_TIMER_INACTIVE_ID \<rparr>,
                   ip_retransmission_count := Suc 0 \<rparr>"
  define st1 where "st1 = (ex_st_wait 0)\<lparr> ident_procs := (ident_procs (ex_st_wait 0))(0 \<mapsto> ip1) \<rparr>"
  have i: "ip1 = ex_ip_failed" by (simp add: ip1_def ex_ip_failed_def ex_ip_def)
  have a1: "ident_procs st1 0 = Some ip1" by (simp add: st1_def)
  have a2: "emm_data_context_get st1 (ip_ue_id ip1) = Some 4"
    by (simp add: st1_def ip1_def ex_wait_facts emm_data_context_get_def ex_st_wait_def ex_st0_def)
  have a3: "emm_contexts st1 4 = Some ex_ctx_wait" by (simp add: st1_def ex_wait_facts)
  have a4: "sap_rc ex_env_fail st1 (identity_request ip1 ex_ctx_wait) = RETURNerror"
    by (simp add: ex_env_facts)
  note rq = identification_request_failed [OF a1 a2 a3 a4]
  have r: "identity_request ip1 ex_ctx_wait = identity_request (ex_ip 0) ex_ctx_wait"
    by (simp add: identity_request_def ip1_def ex_ip_def)
  have e: "st1\<lparr> trace := trace st1 @ [Ev_emm_sap_send (identity_request ip1 ex_ctx_wait)] \<rparr> = ex_st_failed"
    unfolding r by (simp add: st1_def i ex_st_failed_def ex_st_wait_def ex_st0_def)
  have w: "Suc 0 = (ip_retransmission_count (ex_ip 0) + 1) mod 2 ^ 32"
    and lt: "Suc 0 < IDENTIFICATION_COUNTER_MAX ex_env_fail"
    by (simp_all add: ex_wait_facts)
  have h: "identification_t3470_handler ex_env_fail (Some 4) (ex_st_wait 0) = Inr ex_st_failed"
    using handler_below_maximum [OF ex_wait_facts(1) ex_wait_facts(2) ex_wait_facts(3) w lt] rq e
    by (simp add: ip1_def [symmetric] st1_def [symmetric])
  have x: "T3470_expiry ex_env_fail 0 (ex_st_wait 0) = Inr ex_st_failed"
    using h expiry_awaiting [OF ex_awaiting(1), of ex_env_fail 0] by simp
  have f: "ident_procs ex_st_failed 0 = Some ex_ip_failed"
    "emm_contexts ex_st_failed 4 = Some ex_ctx_wait"
    "tm_id (ip_T3470 ex_ip_failed) = NAS_TIMER_INACTIVE_ID"
    "ip_retransmission_count ex_ip_failed = Suc 0"
    by (simp_all add: ex_st_failed_def ex_ip_failed_def ex_ip_def ex_st_wait_def ex_st0_def)
  have n: "\<not> awaiting ex_st_failed 4 0 (Suc 0)"
    using f by (simp add: awaiting_def)
  have y: "T3470_expiry ex_env_fail 0 ex_st_failed = Inr ex_st_failed"
    using f by (simp add: T3470_expiry_def)
  show ?thesis
    using ex_awaiting(1) [of 0] x f n y by (simp add: ex_wait_facts)
qed

subsection \<open>The expiry that brings the counter to the maximum\<close>

text \<open>
  Claim C3. When the expiry of T3470 brings the retransmission counter to the maximum,
  the handler is to send the abort primitive, to release all procedures of the context
  and then to send the implicit detach or to signal the application layer, for the
  identifier of the subscriber. The code sends the abort primitive and releases the
  procedures, and then reads that identifier through its pointer to the Identification
  procedure, which these two steps have released. So, for every state in which the
  handler finds the context and its procedure, and every environment, an expiry whose
  incremented counter is not below the maximum ends in the read of a released procedure:
  the handler returns no state, and neither the implicit detach nor the signal to the
  application layer is sent by a defined execution.
\<close>

theorem timeout_at_maximum_reads_released_procedure:
  assumes "emm_contexts st c = Some ctx" "get_nas_common_procedure_identification ctx = Some p"
    "ident_procs st p = Some ip"
    "\<not> (ip_retransmission_count ip + 1) mod 2 ^ 32 < IDENTIFICATION_COUNTER_MAX e"
  shows "identification_t3470_handler e (Some c) st = Inl InvalidPointer"
  using assms by (rule handler_at_maximum)

text \<open>
  The same at concrete inputs: the expiry with counter 4 and maximum 5, whether the
  primitives are delivered or not and whether the store still has the subscriber or
  not; and the start of the procedure for a deregistered subscriber followed by five
  expiries, of which the first four send the request again.
\<close>

theorem timeout_at_maximum_reads_released_procedure_witness:
  "emm_contexts (ex_st_wait 4) 4 = Some ex_ctx_wait \<and>
   get_nas_common_procedure_identification ex_ctx_wait = Some 0 \<and>
   ident_procs (ex_st_wait 4) 0 = Some (ex_ip 4) \<and>
   \<not> (ip_retransmission_count (ex_ip 4) + 1) mod 2 ^ 32 < IDENTIFICATION_COUNTER_MAX ex_env_ok \<and>
   identification_t3470_handler ex_env_ok (Some 4) (ex_st_wait 4) = Inl InvalidPointer \<and>
   identification_t3470_handler ex_env_fail (Some 4) (ex_st_wait 4) = Inl InvalidPointer \<and>
   identification_t3470_handler ex_env_ok (Some 4) (ex_st_gone 4) = Inl InvalidPointer \<and>
   T3470_expiry ex_env_ok 0 (ex_st_wait 4) = Inl InvalidPointer \<and>
   (\<exists>rc st0 q st4.
      emm_proc_identification ex_env_ok (Some 4) (Some 5) IDENTITY_TYPE_2_IMSI
        (CB_extern 2) (CB_extern 3) ex_st0 = Inr (rc, st0) \<and>
      timeouts ex_env_ok q 4 st0 = Inr st4 \<and> awaiting st4 4 q 4 \<and>
      timeouts ex_env_ok q 5 st0 = Inl InvalidPointer)"
proof -
  have n: "\<not> (ip_retransmission_count (ex_ip 4) + 1) mod 2 ^ 32 < IDENTIFICATION_COUNTER_MAX ex_env_ok"
    "\<not> (ip_retransmission_count (ex_ip 4) + 1) mod 2 ^ 32 < IDENTIFICATION_COUNTER_MAX ex_env_fail"
    by (simp_all add: ex_wait_facts)
  note a = timeout_at_maximum_reads_released_procedure
      [OF ex_wait_facts(1) ex_wait_facts(2) ex_wait_facts(3) n(1)]
  note b = timeout_at_maximum_reads_released_procedure
      [OF ex_wait_facts(1) ex_wait_facts(2) ex_wait_facts(3) n(2)]
  note c = timeout_at_maximum_reads_released_procedure
      [OF ex_wait_facts(4) ex_wait_facts(2) ex_wait_facts(5) n(1)]
  have d: "T3470_expiry ex_env_ok 0 (ex_st_wait 4) = Inl InvalidPointer"
    using a expiry_awaiting [OF ex_awaiting(1), of ex_env_ok 4] by simp
  have mx: "IDENTIFICATION_COUNTER_MAX ex_env_ok \<le> 2 ^ 32"
    and lt: "0 + 4 < IDENTIFICATION_COUNTER_MAX ex_env_ok"
    by (simp_all add: ex_wait_facts)
  from start_effect [OF ex_start_facts(1) _ ex_start_facts(7) ex_start_facts(8) ex_start_facts(9),
      of "Some 5" IDENTITY_TYPE_2_IMSI "CB_extern 2" "CB_extern 3"]
  obtain rc st0 q rq ctx0 where s:
    "emm_proc_identification ex_env_ok (Some 4) (Some 5) IDENTITY_TYPE_2_IMSI
        (CB_extern 2) (CB_extern 3) ex_st0 = Inr (rc, st0)"
    "awaiting st0 4 q 0" "the_request st0 4 q = Some rq" "emm_contexts st0 4 = Some ctx0"
    by (auto simp: ex_start_facts)
  from timeouts_retry [OF s(2) s(4) s(3) lt mx ex_env_facts(1)]
  obtain st4 where t: "timeouts ex_env_ok q 4 st0 = Inr st4" "awaiting st4 4 q 4"
    by auto
  from t(2) obtain ctx4 ip4 where f: "emm_contexts st4 4 = Some ctx4"
    "get_nas_common_procedure_identification ctx4 = Some q"
    "ident_procs st4 q = Some ip4" "ip_retransmission_count ip4 = 4"
    by (auto elim!: awaitingD)
  have n4: "\<not> (ip_retransmission_count ip4 + 1) mod 2 ^ 32 < IDENTIFICATION_COUNTER_MAX ex_env_ok"
    by (simp add: f(4) ex_wait_facts)
  have x: "T3470_expiry ex_env_ok q st4 = Inl InvalidPointer"
    using timeout_at_maximum_reads_released_procedure [OF f(1) f(2) f(3) n4]
      expiry_awaiting [OF t(2), of ex_env_ok]
    by simp
  have "timeouts ex_env_ok q (Suc 4) st0 =
          (case timeouts ex_env_ok q 4 st0 of Inl f \<Rightarrow> Inl f | Inr st' \<Rightarrow> T3470_expiry ex_env_ok q st')"
    by (rule timeouts_Suc_end)
  also have "\<dots> = Inl InvalidPointer" by (simp only: t(1) x sum.case)
  finally have e: "timeouts ex_env_ok q 5 st0 = Inl InvalidPointer" by simp
  show ?thesis
    using ex_wait_facts(1) [of 4] ex_wait_facts(2) ex_wait_facts(3) [of 4] n(1) a b c d
      s(1) t e
    by blast
qed

subsection \<open>Non-delivery during handover\<close>



subsection \<open>Starting twice\<close>

lemma find_ident_filter:
  "(find_ident ps = None) = (filter is_ident ps = [])"
  by (induction ps rule: find_ident.induct) auto

lemma ident_count_get:
  "ident_count ctx = 0 \<longleftrightarrow> get_nas_common_procedure_identification ctx = None"
  by (simp add: ident_count_def get_nas_common_procedure_identification_def find_ident_filter)

lemma identification_request_defined:
  assumes "identification_request e p st = Inr r" "ident_procs st p = Some proc"
  shows "request_defined st (ip_ue_id proc)"
  using assms by (auto simp: identification_request_def request_defined_def split: option.splits)

lemma identification_request_total:
  assumes "ident_procs st p = Some proc" "request_defined st (ip_ue_id proc)"
  shows "\<exists>rc st'. identification_request e p st = Inr (rc, st')"
  using assms
  by (auto simp: identification_request_def request_defined_def split_beta split: option.splits)

lemma start_outcome:
  assumes ctx: "emm_contexts st c = Some ctx"
    and ok: "ctx_emm_fsm_state ctx = EMM_DEREGISTERED \<or> ctx_emm_fsm_state ctx = EMM_REGISTERED"
    and res: "emm_proc_identification e (Some c) parent type success failure st = Inr (rc, st')"
  shows "\<exists>p ip' tr.
           (case get_nas_common_procedure_identification ctx of
              None \<Rightarrow> p = next_proc_ptr st | Some q \<Rightarrow> p = q) \<and>
           emm_contexts st' c = Some (ctx\<lparr> ctx_emm_common_procs :=
              (case get_nas_common_procedure_identification ctx of
                 None \<Rightarrow> EMM_COMM_PROC_IDENT p # ctx_emm_common_procs ctx
               | Some q \<Rightarrow> ctx_emm_common_procs ctx) \<rparr>) \<and>
           ident_procs st' p = Some ip' \<and> ip_retransmission_count ip' = 0 \<and>
           ip_ue_id ip' = ctx_ue_id ctx \<and>
           request_defined st' (ctx_ue_id ctx) \<and>
           next_proc_ptr st' =
             (case get_nas_common_procedure_identification ctx of
                None \<Rightarrow> Suc (next_proc_ptr st) | Some q \<Rightarrow> next_proc_ptr st) \<and>
           trace st' = trace st @
             (case get_nas_common_procedure_identification ctx of
                None \<Rightarrow> [Ev_nas_new_identification_procedure c] | Some q \<Rightarrow> []) @ tr \<and>
           Ev_nas_new_identification_procedure c \<notin> set tr"
proof -
  obtain p st1 where new: "(case get_nas_common_procedure_identification ctx of
                                    Some p \<Rightarrow> (p, st)
                                  | None \<Rightarrow> nas_new_identification_procedure c st) = (p, st1)"
    by (cases "(case get_nas_common_procedure_identification ctx of
                                    Some p \<Rightarrow> (p, st)
                                  | None \<Rightarrow> nas_new_identification_procedure c st)") auto
  define ctx1 where "ctx1 = ctx\<lparr> ctx_emm_common_procs :=
              (case get_nas_common_procedure_identification ctx of
                 None \<Rightarrow> EMM_COMM_PROC_IDENT p # ctx_emm_common_procs ctx
               | Some q \<Rightarrow> ctx_emm_common_procs ctx) \<rparr>"
  have f1: "case get_nas_common_procedure_identification ctx of
              None \<Rightarrow> p = next_proc_ptr st | Some q \<Rightarrow> p = q"
    "emm_contexts st1 c = Some ctx1"
    "emm_contexts st1 = (emm_contexts st)(c \<mapsto> ctx1)"
    "emm_data_ue_id st1 = emm_data_ue_id st"
    "next_proc_ptr st1 =
             (case get_nas_common_procedure_identification ctx of
                None \<Rightarrow> Suc (next_proc_ptr st) | Some q \<Rightarrow> next_proc_ptr st)"
    "trace st1 = trace st @
             (case get_nas_common_procedure_identification ctx of
                None \<Rightarrow> [Ev_nas_new_identification_procedure c] | Some q \<Rightarrow> [])"
    using new ctx
    by (auto simp: nas_new_identification_procedure_def Let_def ctx1_def split: option.splits)
  from res ctx ok new obtain ip where ip: "ident_procs st1 p = Some ip"
    by (cases "ident_procs st1 p") (auto simp: emm_proc_identification_def)
  define ip2 where "ip2 = ip
                                \<lparr> ip_identity_type := type,
                                  ip_retransmission_count := 0,
                                  ip_ue_id := ctx_ue_id ctx,
                                  ip_parent := parent,
                                  ip_delivered := CB_NULL,
                                  ip_previous_emm_fsm_state := emm_fsm_get_state ctx,
                                  ip_not_delivered := CB_identification_ll_failure,
                                  ip_not_delivered_ho := CB_identification_non_delivered_ho,
                                  ip_success_notif := success,
                                  ip_failure_notif := failure,
                                  ip_abort := CB_identification_abort,
                                  ip_fail_in := CB_NULL,
                                  ip_time_out := CB_identification_t3470_handler \<rparr>"
  define st2 where "st2 = st1\<lparr> ident_procs := (ident_procs st1)(p \<mapsto> ip2) \<rparr>"
  have f2: "ident_procs st2 p = Some ip2" "emm_contexts st2 = emm_contexts st1"
    "emm_data_ue_id st2 = emm_data_ue_id st1" "next_proc_ptr st2 = next_proc_ptr st1"
    "trace st2 = trace st1" "ip_ue_id ip2 = ctx_ue_id ctx" "ip_retransmission_count ip2 = 0"
    by (simp_all add: st2_def ip2_def)
  from res ctx ok new ip obtain rc2 st3 where
    req: "identification_request e p st2 = Inr (rc2, st3)"
    and fin: "(rc, st') = (if rc2 \<noteq> RETURNerror
               then emm_sap_send e (EMMREG_COMMON_PROC_REQ (ctx_ue_id ctx) c) st3 else (rc2, st3))"
    by (cases "identification_request e p st2")
      (auto simp: emm_proc_identification_def st2_def [symmetric] ip2_def [symmetric]
        split: if_splits)
  have rd2: "request_defined st2 (ctx_ue_id ctx)"
    using identification_request_defined [OF req f2(1)] f2(6) by simp
  from identification_request_outcome [OF req] f2(1) obtain tr3 ip3 where f3:
    "emm_contexts st3 = emm_contexts st2" "emm_data_ue_id st3 = emm_data_ue_id st2"
    "next_proc_ptr st3 = next_proc_ptr st2" "ident_procs st3 p = Some ip3"
    "ip_retransmission_count ip3 = 0" "ip_ue_id ip3 = ctx_ue_id ctx"
    "trace st3 = trace st2 @ tr3" "Ev_nas_new_identification_procedure c \<notin> set tr3"
    using f2(6) f2(7) by (cases "rc2 = RETURNerror") (auto simp: identity_request_def)
  from fin obtain tr4 where f4:
    "emm_contexts st' = emm_contexts st3" "emm_data_ue_id st' = emm_data_ue_id st3"
    "next_proc_ptr st' = next_proc_ptr st3" "ident_procs st' = ident_procs st3"
    "trace st' = trace st3 @ tr4" "Ev_nas_new_identification_procedure c \<notin> set tr4"
    by (cases "rc2 = RETURNerror") (auto simp: emm_sap_send_req)
  have rd: "request_defined st' (ctx_ue_id ctx)"
    using rd2 f3(1) f3(2) f4(1) f4(2)
    by (auto simp: request_defined_def emm_data_context_get_def split: option.splits)
  have "trace st' = trace st @
             (case get_nas_common_procedure_identification ctx of
                None \<Rightarrow> [Ev_nas_new_identification_procedure c] | Some q \<Rightarrow> []) @ (tr3 @ tr4)"
    using f1(6) f2(5) f3(7) f4(5) by simp
  moreover have "Ev_nas_new_identification_procedure c \<notin> set (tr3 @ tr4)"
    using f3(8) f4(6) by simp
  moreover have "emm_contexts st' c = Some ctx1"
    using f1(2) f2(2) f3(1) f4(1) by simp
  moreover have "ident_procs st' p = Some ip3" using f3(4) f4(4) by simp
  moreover have "next_proc_ptr st' =
             (case get_nas_common_procedure_identification ctx of
                None \<Rightarrow> Suc (next_proc_ptr st) | Some q \<Rightarrow> next_proc_ptr st)"
    using f1(5) f2(4) f3(3) f4(3) by simp
  ultimately show ?thesis
    using f1(1) f3(5) f3(6) rd unfolding ctx1_def by blast
qed


lemma start_total:
  assumes "emm_contexts st c = Some ctx" "get_nas_common_procedure_identification ctx = Some p"
    "ident_procs st p = Some ip" "request_defined st (ctx_ue_id ctx)"
  shows "\<exists>rc st'. emm_proc_identification e (Some c) parent type success failure st = Inr (rc, st')"
proof (cases "ctx_emm_fsm_state ctx = EMM_DEREGISTERED \<or> ctx_emm_fsm_state ctx = EMM_REGISTERED")
  case False
  with assms(1) show ?thesis by (simp add: emm_proc_identification_def)
next
  case True
  define ip2 where "ip2 = ip
                                \<lparr> ip_identity_type := type,
                                  ip_retransmission_count := 0,
                                  ip_ue_id := ctx_ue_id ctx,
                                  ip_parent := parent,
                                  ip_delivered := CB_NULL,
                                  ip_previous_emm_fsm_state := emm_fsm_get_state ctx,
                                  ip_not_delivered := CB_identification_ll_failure,
                                  ip_not_delivered_ho := CB_identification_non_delivered_ho,
                                  ip_success_notif := success,
                                  ip_failure_notif := failure,
                                  ip_abort := CB_identification_abort,
                                  ip_fail_in := CB_NULL,
                                  ip_time_out := CB_identification_t3470_handler \<rparr>"
  define st2 where "st2 = st\<lparr> ident_procs := (ident_procs st)(p \<mapsto> ip2) \<rparr>"
  have a: "ident_procs st2 p = Some ip2" by (simp add: st2_def)
  have b: "request_defined st2 (ip_ue_id ip2)"
    using assms(4)
    by (auto simp: st2_def ip2_def request_defined_def emm_data_context_get_def
        split: option.splits)
  from identification_request_total [OF a b, of e] obtain rc2 st3 where
    "identification_request e p st2 = Inr (rc2, st3)" by blast
  with assms(1) assms(2) assms(3) True show ?thesis
    by (cases "emm_sap_send e (EMMREG_COMMON_PROC_REQ (ctx_ue_id ctx) c) st3")
      (simp add: emm_proc_identification_def ip2_def [symmetric] st2_def [symmetric])
qed

text \<open>
  Claim C8. After a call of \<^verbatim>\<open>emm_proc_identification\<close> for a context in a
  permitted state has returned, the context has an Identification procedure, found by
  the accessor, and the number of Identification procedures of the context is the one
  before the call, or one if there was none. A second call in succession, with any
  arguments, returns as well; it leaves the common procedures of the context as they
  are, finds the same procedure, allocates none (the allocation counter and the log
  show no call of \<^verbatim>\<open>nas_new_identification_procedure\<close>) and leaves the
  retransmission counter at the value it had after the first call.
\<close>

theorem start_twice_reuses_procedure:
  assumes ctx: "emm_contexts st c = Some ctx"
    and ok: "ctx_emm_fsm_state ctx = EMM_DEREGISTERED \<or> ctx_emm_fsm_state ctx = EMM_REGISTERED"
    and first: "emm_proc_identification e (Some c) parent type success failure st = Inr (rc1, st1)"
  shows "\<exists>p ctx1 ip1 rc2 st2 ip2 tr.
           emm_contexts st1 c = Some ctx1 \<and>
           get_nas_common_procedure_identification ctx1 = Some p \<and>
           ident_procs st1 p = Some ip1 \<and>
           ident_count ctx1 = max 1 (ident_count ctx) \<and>
           emm_proc_identification e2 (Some c) parent2 type2 success2 failure2 st1 = Inr (rc2, st2) \<and>
           emm_contexts st2 c = Some ctx1 \<and>
           ident_procs st2 p = Some ip2 \<and>
           ip_retransmission_count ip2 = ip_retransmission_count ip1 \<and>
           next_proc_ptr st2 = next_proc_ptr st1 \<and>
           trace st2 = trace st1 @ tr \<and>
           Ev_nas_new_identification_procedure c \<notin> set tr"
proof -
  from start_outcome [OF ctx ok first] obtain p ip1 where o1:
    "case get_nas_common_procedure_identification ctx of
              None \<Rightarrow> p = next_proc_ptr st | Some q \<Rightarrow> p = q"
    "emm_contexts st1 c = Some (ctx\<lparr> ctx_emm_common_procs :=
              (case get_nas_common_procedure_identification ctx of
                 None \<Rightarrow> EMM_COMM_PROC_IDENT p # ctx_emm_common_procs ctx
               | Some q \<Rightarrow> ctx_emm_common_procs ctx) \<rparr>)"
    "ident_procs st1 p = Some ip1" "ip_retransmission_count ip1 = 0"
    "request_defined st1 (ctx_ue_id ctx)"
    by blast
  define ctx1 where "ctx1 = ctx\<lparr> ctx_emm_common_procs :=
              (case get_nas_common_procedure_identification ctx of
                 None \<Rightarrow> EMM_COMM_PROC_IDENT p # ctx_emm_common_procs ctx
               | Some q \<Rightarrow> ctx_emm_common_procs ctx) \<rparr>"
  have c1: "emm_contexts st1 c = Some ctx1" using o1(2) by (simp add: ctx1_def)
  have g1: "get_nas_common_procedure_identification ctx1 = Some p"
    using o1(1) by (cases "get_nas_common_procedure_identification ctx")
      (auto simp: ctx1_def get_nas_common_procedure_identification_def)
  have n1: "ident_count ctx1 = max 1 (ident_count ctx)"
  proof (cases "get_nas_common_procedure_identification ctx")
    case None
    then have "ident_count ctx = 0" by (simp add: ident_count_get)
    with None show ?thesis by (simp add: ctx1_def ident_count_def)
  next
    case (Some q)
    then have "ident_count ctx \<noteq> 0" by (simp add: ident_count_get)
    then have "max 1 (ident_count ctx) = ident_count ctx" by simp
    with Some show ?thesis by (simp add: ctx1_def ident_count_def)
  qed
  have s1: "ctx_emm_fsm_state ctx1 = EMM_DEREGISTERED \<or> ctx_emm_fsm_state ctx1 = EMM_REGISTERED"
    "ctx_ue_id ctx1 = ctx_ue_id ctx"
    using ok by (simp_all add: ctx1_def)
  have rd: "request_defined st1 (ctx_ue_id ctx1)" using o1(5) s1(2) by simp
  from start_total [OF c1 g1 o1(3) rd, of e2 parent2 type2 success2 failure2]
  obtain rc2 st2 where second:
    "emm_proc_identification e2 (Some c) parent2 type2 success2 failure2 st1 = Inr (rc2, st2)"
    by blast
  from start_outcome [OF c1 s1(1) second] g1 obtain ip2 tr where o2:
    "emm_contexts st2 c = Some (ctx1\<lparr> ctx_emm_common_procs := ctx_emm_common_procs ctx1 \<rparr>)"
    "ident_procs st2 p = Some ip2" "ip_retransmission_count ip2 = 0"
    "next_proc_ptr st2 = next_proc_ptr st1"
    "trace st2 = trace st1 @ tr" "Ev_nas_new_identification_procedure c \<notin> set tr"
    by auto
  have c2: "emm_contexts st2 c = Some ctx1" using o2(1) by simp
  from c1 g1 o1(3) n1 second c2 o2(2) o2(3) o1(4) o2(4) o2(5) o2(6)
  show ?thesis by auto
qed

theorem start_twice_reuses_procedure_witness:
  "emm_contexts ex_st0 4 = Some ex_ctx \<and> ctx_emm_fsm_state ex_ctx = EMM_DEREGISTERED \<and>
   (\<exists>rc1 st1 p ctx1 ip1 rc2 st2 ip2.
      emm_proc_identification ex_env_ok (Some 4) (Some 5) IDENTITY_TYPE_2_IMSI
        (CB_extern 2) (CB_extern 3) ex_st0 = Inr (rc1, st1) \<and>
      emm_contexts st1 4 = Some ctx1 \<and>
      get_nas_common_procedure_identification ctx1 = Some p \<and>
      ident_procs st1 p = Some ip1 \<and> ident_count ctx1 = 1 \<and>
      emm_proc_identification ex_env_fail (Some 4) None IDENTITY_TYPE_2_IMEI CB_NULL CB_NULL st1
        = Inr (rc2, st2) \<and>
      emm_contexts st2 4 = Some ctx1 \<and> ident_procs st2 p = Some ip2 \<and>
      ip_retransmission_count ip2 = ip_retransmission_count ip1 \<and>
      next_proc_ptr st2 = next_proc_ptr st1)"
proof -
  have ok: "ctx_emm_fsm_state ex_ctx = EMM_DEREGISTERED \<or> ctx_emm_fsm_state ex_ctx = EMM_REGISTERED"
    by (simp add: ex_start_facts)
  from start_effect [OF ex_start_facts(1) ok ex_start_facts(7) ex_start_facts(8) ex_start_facts(9),
      of "Some 5" IDENTITY_TYPE_2_IMSI "CB_extern 2" "CB_extern 3"]
  obtain rc1 st1 where first: "emm_proc_identification ex_env_ok (Some 4) (Some 5)
      IDENTITY_TYPE_2_IMSI (CB_extern 2) (CB_extern 3) ex_st0 = Inr (rc1, st1)"
    by blast
  have n: "max 1 (ident_count ex_ctx) = 1" by (simp add: ident_count_def ex_ctx_def)
  from start_twice_reuses_procedure [OF ex_start_facts(1) ok first,
      of ex_env_fail None IDENTITY_TYPE_2_IMEI CB_NULL CB_NULL] first n
  show ?thesis by (simp add: ex_start_facts) blast
qed

subsection \<open>Completion on an identity conflict\<close>

lemma restart_parent_retry_result:
  assumes "ip_parent ip = Some pp" "specific_procs st pp = Some parent"
  shows "restart_parent_retry c emm_ctx ip old_ue st =
           Inr (st\<lparr> specific_procs := (specific_procs st)(pp \<mapsto>
                      parent\<lparr> sp_retry_timer :=
                                 \<lparr> tm_id = int (next_timer_id st), tm_cb = sp_retry_cb parent,
                                   tm_args = Some c \<rparr>,
                               sp_old_ue_id := old_ue \<rparr>),
                    next_timer_id := Suc (next_timer_id st),
                    trace := trace st @
                      [Ev_nas_stop_T_retry_specific_procedure (ctx_ue_id emm_ctx),
                       Ev_nas_start_T_retry_specific_procedure (ctx_ue_id emm_ctx)] \<rparr>)"
  using assms
  by (simp add: restart_parent_retry_def Let_def nas_stop_T_retry_specific_procedure_def
      nas_start_T_retry_specific_procedure_def)

lemma emm_sap_send_detach:
  "emm_sap_send e (EMMCN_IMPLICIT_DETACH_UE m) st =
     (sap_rc e st (EMMCN_IMPLICIT_DETACH_UE m),
      st\<lparr> trace := trace st @ [Ev_emm_sap_send (EMMCN_IMPLICIT_DETACH_UE m)] \<rparr>)"
  by (simp add: emm_sap_send_def Let_def)

text \<open>What the delivery of the concluding primitive leaves of a state.\<close>

lemma emm_sap_send_cnf_frame:
  assumes "emm_sap_send e (common_proc_cnf ue c notify p ip) st = (rc, st')"
  shows "trace st' = trace st @ [Ev_emm_sap_send (common_proc_cnf ue c notify p ip)]"
    "specific_procs st' = specific_procs st" "emm_data_imsi st' = emm_data_imsi st"
    "emm_data_ue_id st' = emm_data_ue_id st" "next_timer_id st' = next_timer_id st"
    "mme_ue_contexts_imsi st' = mme_ue_contexts_imsi st"
    "rc = sap_rc e st (common_proc_cnf ue c notify p ip)"
    "c' \<noteq> c \<Longrightarrow> emm_contexts st' c' = emm_contexts st c'"
    "emm_contexts st c = Some ctx \<Longrightarrow>
       \<exists>ps. emm_contexts st' c = Some (ctx\<lparr> ctx_emm_common_procs := ps \<rparr>)"
    "p' \<noteq> p \<Longrightarrow> ident_procs st' p' = ident_procs st p'"
    "ident_procs st' p = None \<or> ident_procs st' p = ident_procs st p"
  using assms
  by (auto simp: emm_sap_send_def Let_def common_proc_cnf_def nas_delete_common_procedure_def
      split: if_splits option.splits intro: exI [of _ "ctx_emm_common_procs ctx"])


text \<open>
  With a parent. A call of \<^verbatim>\<open>emm_proc_identification_complete\<close> with an IMSI that
  the store already has for another context with a different identifier, for a
  procedure that has a parent, returns \<^verbatim>\<open>RETURNok\<close> after exactly these calls: the
  stop of T3470, the stop and the start of the retry timer of the parent, the implicit
  detach of the other context with cause illegal UE and detach type 0, and the
  concluding primitive with \<open>notify = false\<close> and \<open>free_proc = true\<close>. Afterwards the
  parent holds the identifier of the other context and its retry timer is armed with
  the callback of the parent and the completing context, the other context carries the
  cause illegal UE, and neither the identity fields of the completing context nor the
  index of the store by IMSI have changed.
\<close>

lemma complete_conflict_with_parent:
  assumes c: "emm_data_context_get st ue = Some c" and ctx: "emm_contexts st c = Some emm_ctx"
    and p: "get_nas_common_procedure_identification emm_ctx = Some p"
    and ip: "ident_procs st p = Some ip"
    and d: "emm_data_context_get_by_imsi st (imsi_to_imsi64 i) = Some d"
    and dup: "emm_contexts st d = Some dup"
    and ne: "ctx_ue_id dup \<noteq> ctx_ue_id emm_ctx"
    and pp: "ip_parent ip = Some pp" and parent: "specific_procs st pp = Some parent"
  shows "\<exists>st' parent' dup' ctx'.
           emm_proc_identification_complete e ue (Some i) imei imeisv tmsi st = Inr (RETURNok, st') \<and>
           trace st' = trace st @
             [Ev_nas_stop_T3470 ue,
              Ev_nas_stop_T_retry_specific_procedure (ctx_ue_id emm_ctx),
              Ev_nas_start_T_retry_specific_procedure (ctx_ue_id emm_ctx),
              Ev_emm_sap_send (EMMCN_IMPLICIT_DETACH_UE
                \<lparr> cn_emm_cause = EMM_CAUSE_ILLEGAL_UE, cn_detach_type = 0,
                  cn_ue_id = ctx_ue_id dup \<rparr>),
              Ev_emm_sap_send (EMMREG_COMMON_PROC_CNF
                \<lparr> reg_ue_id = ue, reg_ctx = c, reg_notify = False, reg_free_proc = True,
                  reg_common_proc = p,
                  reg_previous_emm_fsm_state = ip_previous_emm_fsm_state ip \<rparr>)] \<and>
           specific_procs st' pp = Some parent' \<and>
           sp_old_ue_id parent' = ctx_ue_id dup \<and>
           sp_retry_timer parent' =
             \<lparr> tm_id = int (next_timer_id st), tm_cb = sp_retry_cb parent, tm_args = Some c \<rparr> \<and>
           emm_contexts st' d = Some dup' \<and> ctx_emm_cause dup' = EMM_CAUSE_ILLEGAL_UE \<and>
           emm_contexts st' c = Some ctx' \<and>
           ctx_imsi ctx' = ctx_imsi emm_ctx \<and> ctx_imsi64 ctx' = ctx_imsi64 emm_ctx \<and>
           emm_data_imsi st' = emm_data_imsi st"
proof -
  have dc: "d \<noteq> c" using ctx dup ne by auto
  define st1 where "st1 = nas_stop_T3470 ue p st"
  have f1: "emm_data_context_get_by_imsi st1 (imsi_to_imsi64 i) = Some d"
    "emm_contexts st1 = emm_contexts st" "specific_procs st1 = specific_procs st"
    "trace st1 = trace st @ [Ev_nas_stop_T3470 ue]" "next_timer_id st1 = next_timer_id st"
    "emm_data_imsi st1 = emm_data_imsi st"
    using d by (simp_all add: st1_def nas_stop_T3470_def emm_data_context_get_by_imsi_def)
  define st2 where "st2 = st1\<lparr> specific_procs := (specific_procs st1)(pp \<mapsto>
                      parent\<lparr> sp_retry_timer :=
                                 \<lparr> tm_id = int (next_timer_id st1), tm_cb = sp_retry_cb parent,
                                   tm_args = Some c \<rparr>,
                               sp_old_ue_id := ctx_ue_id dup \<rparr>),
                    next_timer_id := Suc (next_timer_id st1),
                    trace := trace st1 @
                      [Ev_nas_stop_T_retry_specific_procedure (ctx_ue_id emm_ctx),
                       Ev_nas_start_T_retry_specific_procedure (ctx_ue_id emm_ctx)] \<rparr>"
  have r: "restart_parent_retry c emm_ctx ip (ctx_ue_id dup) st1 = Inr st2"
    using restart_parent_retry_result [OF pp, of st1 parent c emm_ctx "ctx_ue_id dup"] parent f1(3)
    by (simp add: st2_def)
  define st4 where "st4 = st2\<lparr> emm_contexts := (emm_contexts st2)
                            (d \<mapsto> dup\<lparr> ctx_emm_cause := EMM_CAUSE_ILLEGAL_UE \<rparr>),
                          trace := trace st2 @ [Ev_emm_sap_send (EMMCN_IMPLICIT_DETACH_UE
                            \<lparr> cn_emm_cause = EMM_CAUSE_ILLEGAL_UE, cn_detach_type = 0,
                              cn_ue_id = ctx_ue_id dup \<rparr>)] \<rparr>"
  obtain rc2 st5 where s5: "emm_sap_send e (common_proc_cnf ue c False p ip) st4 = (rc2, st5)"
    by (cases "emm_sap_send e (common_proc_cnf ue c False p ip) st4") auto
  have res: "emm_proc_identification_complete e ue (Some i) imei imeisv tmsi st = Inr (RETURNok, st5)"
    using c ctx p ip f1(1) f1(2) dup ne r s5
    by (simp add: emm_proc_identification_complete_def Let_def st1_def [symmetric]
        emm_sap_send_detach st4_def [symmetric])
  have f4: "emm_contexts st4 c = Some emm_ctx"
    "emm_contexts st4 d = Some (dup\<lparr> ctx_emm_cause := EMM_CAUSE_ILLEGAL_UE \<rparr>)"
    "specific_procs st4 pp = Some (parent\<lparr> sp_retry_timer :=
                                 \<lparr> tm_id = int (next_timer_id st), tm_cb = sp_retry_cb parent,
                                   tm_args = Some c \<rparr>,
                               sp_old_ue_id := ctx_ue_id dup \<rparr>)"
    "emm_data_imsi st4 = emm_data_imsi st"
    "trace st4 = trace st @
             [Ev_nas_stop_T3470 ue,
              Ev_nas_stop_T_retry_specific_procedure (ctx_ue_id emm_ctx),
              Ev_nas_start_T_retry_specific_procedure (ctx_ue_id emm_ctx),
              Ev_emm_sap_send (EMMCN_IMPLICIT_DETACH_UE
                \<lparr> cn_emm_cause = EMM_CAUSE_ILLEGAL_UE, cn_detach_type = 0,
                  cn_ue_id = ctx_ue_id dup \<rparr>)]"
    using dc ctx f1 by (simp_all add: st4_def st2_def)
  note fr = emm_sap_send_cnf_frame [OF s5]
  from fr(9) [OF f4(1)] obtain ps where c5: "emm_contexts st5 c = Some (emm_ctx\<lparr> ctx_emm_common_procs := ps \<rparr>)"
    by blast
  have d5: "emm_contexts st5 d = Some (dup\<lparr> ctx_emm_cause := EMM_CAUSE_ILLEGAL_UE \<rparr>)"
    using fr(8) [OF dc] f4(2) by simp
  have t5: "trace st5 = trace st4 @ [Ev_emm_sap_send (EMMREG_COMMON_PROC_CNF
                \<lparr> reg_ue_id = ue, reg_ctx = c, reg_notify = False, reg_free_proc = True,
                  reg_common_proc = p,
                  reg_previous_emm_fsm_state = ip_previous_emm_fsm_state ip \<rparr>)]"
    using fr(1) by (simp add: common_proc_cnf_def)
  show ?thesis
    using res t5 f4(5) fr(2) f4(3) d5 c5 fr(3) f4(4) by simp
qed

text \<open>
  Claim C2. A call of \<^verbatim>\<open>emm_proc_identification_complete\<close> with an IMSI that the
  store already has for another context with a different identifier is to restart the
  retry timer of the parent of the procedure, to mark the other context, to send the
  implicit detach and to conclude the procedure. \<^verbatim>\<open>emm_proc_identification\<close>
  accepts a null owning procedure and stores it as the parent; the branch of the
  conflict reads the retry timer and the callback of the parent through that pointer
  without a check. So, for a procedure without a parent, every such call ends in the
  dereference of a null pointer right after the stop of T3470: it returns no state, and
  the other context is not marked, the implicit detach is not sent and the procedure
  is not concluded by a defined execution.
\<close>

theorem complete_conflict_without_parent:
  assumes c: "emm_data_context_get st ue = Some c" and ctx: "emm_contexts st c = Some emm_ctx"
    and p: "get_nas_common_procedure_identification emm_ctx = Some p"
    and ip: "ident_procs st p = Some ip"
    and d: "emm_data_context_get_by_imsi st (imsi_to_imsi64 i) = Some d"
    and dup: "emm_contexts st d = Some dup"
    and ne: "ctx_ue_id dup \<noteq> ctx_ue_id emm_ctx"
    and np: "ip_parent ip = None"
  shows "emm_proc_identification_complete e ue (Some i) imei imeisv tmsi st = Inl InvalidPointer"
proof -
  define st1 where "st1 = nas_stop_T3470 ue p st"
  have f1: "emm_data_context_get_by_imsi st1 (imsi_to_imsi64 i) = Some d"
    "emm_contexts st1 = emm_contexts st"
    using d by (simp_all add: st1_def nas_stop_T3470_def emm_data_context_get_by_imsi_def)
  have r: "restart_parent_retry c emm_ctx ip (ctx_ue_id dup) st1 = Inl InvalidPointer"
    using np by (simp add: restart_parent_retry_def)
  show ?thesis
    using c ctx p ip f1 dup ne r
    by (simp add: emm_proc_identification_complete_def Let_def st1_def [symmetric])
qed

text \<open>
  The same at a concrete input: the procedure is started for the subscriber with
  identifier 7 with a null owning procedure, and the response carries the IMSI 208 that
  the subscriber with identifier 8 holds.
\<close>

theorem complete_conflict_without_parent_witness:
  "\<exists>st1 ctx1 ip.
     emm_proc_identification ex_env_ok (Some 4) None IDENTITY_TYPE_2_IMSI
       (CB_extern 2) (CB_extern 3) ex_st_two = Inr (RETURNok, st1) \<and>
     emm_data_context_get st1 7 = Some 4 \<and> emm_contexts st1 4 = Some ctx1 \<and>
     get_nas_common_procedure_identification ctx1 = Some 0 \<and>
     ident_procs st1 0 = Some ip \<and> ip_parent ip = None \<and>
     emm_data_context_get_by_imsi st1 (imsi_to_imsi64 [2, 0, 8]) = Some 6 \<and>
     emm_contexts st1 6 = Some ex_ctx_old \<and>
     ctx_ue_id ex_ctx_old \<noteq> ctx_ue_id ctx1 \<and>
     emm_proc_identification_complete ex_env_ok 7 (Some [2, 0, 8]) None None None st1
       = Inl InvalidPointer"
proof -
  have "\<exists>st1 ctx1 ip.
     emm_proc_identification ex_env_ok (Some 4) None IDENTITY_TYPE_2_IMSI
       (CB_extern 2) (CB_extern 3) ex_st_two = Inr (RETURNok, st1) \<and>
     emm_data_context_get st1 7 = Some 4 \<and> emm_contexts st1 4 = Some ctx1 \<and>
     get_nas_common_procedure_identification ctx1 = Some 0 \<and>
     ident_procs st1 0 = Some ip \<and> ip_parent ip = None \<and>
     emm_data_context_get_by_imsi st1 (imsi_to_imsi64 [2, 0, 8]) = Some 6 \<and>
     emm_contexts st1 6 = Some ex_ctx_old \<and>
     ctx_ue_id ex_ctx_old \<noteq> ctx_ue_id ctx1"
    by (simp add: emm_proc_identification_def ex_st_two_def ex_st0_def ex_ctx_def ex_ctx_old_def
        get_nas_common_procedure_identification_def nas_new_identification_procedure_def
        new_ident_proc_def Let_def emm_fsm_get_state_def identification_request_def
        emm_data_context_get_def emm_data_context_get_by_imsi_def imsi_to_imsi64_def
        emm_sap_send_def identity_request_def nas_start_T3470_def
        ex_env_ok_def RETURNok_def RETURNerror_def)
  then obtain st1 ctx1 ip where s:
    "emm_proc_identification ex_env_ok (Some 4) None IDENTITY_TYPE_2_IMSI
       (CB_extern 2) (CB_extern 3) ex_st_two = Inr (RETURNok, st1)"
    "emm_data_context_get st1 7 = Some 4" "emm_contexts st1 4 = Some ctx1"
    "get_nas_common_procedure_identification ctx1 = Some 0"
    "ident_procs st1 0 = Some ip" "ip_parent ip = None"
    "emm_data_context_get_by_imsi st1 (imsi_to_imsi64 [2, 0, 8]) = Some 6"
    "emm_contexts st1 6 = Some ex_ctx_old"
    "ctx_ue_id ex_ctx_old \<noteq> ctx_ue_id ctx1"
    by blast
  from complete_conflict_without_parent [OF s(2) s(3) s(4) s(5) s(7) s(8) s(9) s(6),
      of ex_env_ok None None None] s
  show ?thesis by blast
qed

subsection \<open>Completion without a conflict\<close>

text \<open>
  Claim C5. A call of \<^verbatim>\<open>emm_proc_identification_complete\<close> with an IMSI that no
  EMM context and no context of the application layer holds under a different
  identifier returns after exactly these calls: the stop of T3470, the update of the
  IMSI of the context, the insertion of the context into the index by IMSI, and the
  concluding primitive with \<open>notify = true\<close> and \<open>free_proc = true\<close>. Afterwards
  the completing context carries the IMSI and a lookup by the IMSI returns this
  context.
\<close>

theorem complete_binds_new_imsi:
  assumes c: "emm_data_context_get st ue = Some c" and ctx: "emm_contexts st c = Some emm_ctx"
    and p: "get_nas_common_procedure_identification emm_ctx = Some p"
    and ip: "ident_procs st p = Some ip"
    and no_emm: "case emm_data_context_get_by_imsi st (imsi_to_imsi64 i) of
                   None \<Rightarrow> True
                 | Some d \<Rightarrow> (case emm_contexts st d of
                                None \<Rightarrow> False
                              | Some dup \<Rightarrow> ctx_ue_id dup = ctx_ue_id emm_ctx)"
    and no_app: "case mme_ue_context_exists_imsi st (imsi_to_imsi64 i) of
                   None \<Rightarrow> True
                 | Some other \<Rightarrow> other = ctx_ue_id emm_ctx"
  shows "\<exists>rc st' ctx'.
           emm_proc_identification_complete e ue (Some i) imei imeisv tmsi st = Inr (rc, st') \<and>
           trace st' = trace st @
             [Ev_nas_stop_T3470 ue,
              Ev_emm_ctx_set_valid_imsi c (imsi_to_imsi64 i),
              Ev_emm_data_context_upsert_imsi c,
              Ev_emm_sap_send (EMMREG_COMMON_PROC_CNF
                \<lparr> reg_ue_id = ue, reg_ctx = c, reg_notify = True, reg_free_proc = True,
                  reg_common_proc = p,
                  reg_previous_emm_fsm_state = ip_previous_emm_fsm_state ip \<rparr>)] \<and>
           emm_contexts st' c = Some ctx' \<and>
           ctx_imsi ctx' = Some i \<and> ctx_imsi64 ctx' = imsi_to_imsi64 i \<and>
           emm_data_context_get_by_imsi st' (imsi_to_imsi64 i) = Some c"
proof -
  define i64 where "i64 = imsi_to_imsi64 i"
  define st1 where "st1 = nas_stop_T3470 ue p st"
  have f1: "emm_data_context_get_by_imsi st1 i64 = emm_data_context_get_by_imsi st i64"
    "emm_contexts st1 = emm_contexts st"
    "mme_ue_context_exists_imsi st1 i64 = mme_ue_context_exists_imsi st i64"
    "trace st1 = trace st @ [Ev_nas_stop_T3470 ue]"
    by (simp_all add: st1_def nas_stop_T3470_def emm_data_context_get_by_imsi_def
        mme_ue_context_exists_imsi_def)
  define ctx2 where "ctx2 = emm_ctx\<lparr> ctx_imsi := Some i, ctx_imsi64 := i64 \<rparr>"
  define st3 where "st3 = st1\<lparr> emm_contexts := (emm_contexts st1)(c \<mapsto> ctx2),
                          emm_data_imsi := (emm_data_imsi st1)(i64 \<mapsto> c),
                          trace := trace st1 @ [Ev_emm_ctx_set_valid_imsi c i64,
                                                Ev_emm_data_context_upsert_imsi c] \<rparr>"
  have u: "update_imsi c i i64 st1 = Inr st3"
    using ctx f1(2)
    by (simp add: update_imsi_def Let_def emm_ctx_set_valid_imsi_def
        emm_data_context_upsert_imsi_def emm_data_context_get_by_imsi_def st3_def ctx2_def)
  obtain rc st5 where s5: "emm_sap_send e (common_proc_cnf ue c True p ip) st3 = (rc, st5)"
    by (cases "emm_sap_send e (common_proc_cnf ue c True p ip) st3") auto
  have res: "emm_proc_identification_complete e ue (Some i) imei imeisv tmsi st = Inr (rc, st5)"
    using c ctx p ip no_emm no_app f1(1) f1(2) f1(3) u s5
    by (auto simp: emm_proc_identification_complete_def Let_def st1_def [symmetric]
        i64_def [symmetric] split: option.splits)
  have f3: "emm_contexts st3 c = Some ctx2" "emm_data_imsi st3 i64 = Some c"
    "trace st3 = trace st @ [Ev_nas_stop_T3470 ue, Ev_emm_ctx_set_valid_imsi c i64,
        Ev_emm_data_context_upsert_imsi c]"
    by (simp_all add: st3_def f1)
  note fr = emm_sap_send_cnf_frame [OF s5]
  from fr(9) [OF f3(1)] obtain ps where c5:
    "emm_contexts st5 c = Some (ctx2\<lparr> ctx_emm_common_procs := ps \<rparr>)" by blast
  have t5: "trace st5 = trace st3 @ [Ev_emm_sap_send (EMMREG_COMMON_PROC_CNF
                \<lparr> reg_ue_id = ue, reg_ctx = c, reg_notify = True, reg_free_proc = True,
                  reg_common_proc = p,
                  reg_previous_emm_fsm_state = ip_previous_emm_fsm_state ip \<rparr>)]"
    using fr(1) by (simp add: common_proc_cnf_def)
  have g5: "emm_data_context_get_by_imsi st5 i64 = Some c"
    using fr(3) f3(2) by (simp add: emm_data_context_get_by_imsi_def)
  show ?thesis
    using res t5 f3(3) c5 g5 by (simp add: i64_def ctx2_def)
qed


theorem complete_binds_new_imsi_witness:
  "emm_data_context_get (ex_st_wait 2) 7 = Some 4 \<and>
   emm_contexts (ex_st_wait 2) 4 = Some ex_ctx_wait \<and>
   get_nas_common_procedure_identification ex_ctx_wait = Some 0 \<and>
   ident_procs (ex_st_wait 2) 0 = Some (ex_ip 2) \<and>
   emm_data_context_get_by_imsi (ex_st_wait 2) (imsi_to_imsi64 [2, 0, 8]) = None \<and>
   mme_ue_context_exists_imsi (ex_st_wait 2) (imsi_to_imsi64 [2, 0, 8]) = None \<and>
   (\<exists>rc st' ctx'.
      emm_proc_identification_complete ex_env_ok 7 (Some [2, 0, 8]) None None None (ex_st_wait 2)
        = Inr (rc, st') \<and>
      trace st' =
        [Ev_nas_stop_T3470 7, Ev_emm_ctx_set_valid_imsi 4 208, Ev_emm_data_context_upsert_imsi 4,
         Ev_emm_sap_send (EMMREG_COMMON_PROC_CNF
           \<lparr> reg_ue_id = 7, reg_ctx = 4, reg_notify = True, reg_free_proc = True,
             reg_common_proc = 0, reg_previous_emm_fsm_state = EMM_DEREGISTERED \<rparr>)] \<and>
      emm_contexts st' 4 = Some ctx' \<and> ctx_imsi ctx' = Some [2, 0, 8] \<and>
      emm_data_context_get_by_imsi st' 208 = Some 4)"
proof -
  have a: "case emm_data_context_get_by_imsi (ex_st_wait 2) (imsi_to_imsi64 [2, 0, 8]) of
                   None \<Rightarrow> True
                 | Some d \<Rightarrow> (case emm_contexts (ex_st_wait 2) d of
                                None \<Rightarrow> False
                              | Some dup \<Rightarrow> ctx_ue_id dup = ctx_ue_id ex_ctx_wait)"
    by (simp add: ex_bind_facts(1))
  have b: "case mme_ue_context_exists_imsi (ex_st_wait 2) (imsi_to_imsi64 [2, 0, 8]) of
                   None \<Rightarrow> True
                 | Some other \<Rightarrow> other = ctx_ue_id ex_ctx_wait"
    by (simp add: ex_bind_facts(2))
  show ?thesis
    using complete_binds_new_imsi [OF ex_wait_facts(12) ex_wait_facts(1) ex_wait_facts(2)
        ex_wait_facts(3) a b, of ex_env_ok None None None]
    by (simp add: ex_wait_facts ex_bind_facts) blast
qed

subsection \<open>The timer is stopped first\<close>

lemma follows_stop_start:
  "follows_stop (nas_stop_T3470 ue p st) p (nas_stop_T3470 ue p st)"
  by (simp add: follows_stop_def timer_off_def nas_stop_T3470_def split: option.splits)

lemma follows_stop_send:
  assumes "emm_sap_send e msg s = (rc, s')" "follows_stop s0 p s"
  shows "follows_stop s0 p s'"
  using assms
  by (cases msg)
    (auto simp: follows_stop_def timer_off_def emm_sap_send_def Let_def
      nas_delete_common_procedure_def split: if_splits option.splits)

lemma follows_stop_restart:
  assumes "restart_parent_retry c ctx ip u s = Inr s'" "follows_stop s0 p s"
  shows "follows_stop s0 p s'"
  using assms
  by (auto simp: follows_stop_def timer_off_def restart_parent_retry_def Let_def
      nas_stop_T_retry_specific_procedure_def nas_start_T_retry_specific_procedure_def
      split: option.splits)

lemma follows_stop_update_imsi:
  assumes "update_imsi c i i64 s = Inr s'" "follows_stop s0 p s"
  shows "follows_stop s0 p s'"
  using assms
  by (auto simp: follows_stop_def timer_off_def update_imsi_def Let_def
      emm_ctx_set_valid_imsi_def emm_data_context_upsert_imsi_def
      split: option.splits)

lemma follows_stop_frames:
  assumes "follows_stop s0 p s"
  shows "follows_stop s0 p (emm_ctx_set_valid_imei c i s)"
    "follows_stop s0 p (emm_ctx_set_valid_imeisv c i s)"
    "follows_stop s0 p (nas_itti_esm_detach_ind u b s)"
    "follows_stop s0 p (s\<lparr> emm_contexts := m \<rparr>)"
  using assms
  by (auto simp: follows_stop_def timer_off_def emm_ctx_set_valid_imei_def
      emm_ctx_set_valid_imeisv_def nas_itti_esm_detach_ind_def)

lemma complete_follows_stop:
  assumes c: "emm_data_context_get st ue = Some c" and ctx: "emm_contexts st c = Some emm_ctx"
    and p: "get_nas_common_procedure_identification emm_ctx = Some p"
    and ip: "ident_procs st p = Some ip"
    and res: "emm_proc_identification_complete e ue imsi imei imeisv tmsi st = Inr (rc, st')"
  shows "follows_stop (nas_stop_T3470 ue p st) p st'"
  using assms follows_stop_start [of ue p st]
  unfolding emm_proc_identification_complete_def Let_def
  apply (auto split: option.splits sum.splits prod.splits if_splits)
  apply (blast intro: follows_stop_send follows_stop_restart follows_stop_update_imsi
      follows_stop_frames)+
  done


lemma timer_off_no_expiry:
  "timer_off st p \<Longrightarrow> T3470_expiry e p st = Inr st"
  by (auto simp: timer_off_def T3470_expiry_def split: option.splits)

text \<open>
  Claim C4. For every call of \<^verbatim>\<open>emm_proc_identification_complete\<close> that finds the
  context and the Identification procedure and returns, the first call it makes is the
  stop of timer T3470: every update of an identity, every step of the conflict
  handling and every notification comes later in the log. In the state it returns,
  T3470 of the procedure is not armed (or the procedure is released), so that an expiry
  of T3470 of this procedure changes nothing and adds no primitive.
\<close>

theorem complete_stops_timer_first:
  assumes c: "emm_data_context_get st ue = Some c" and ctx: "emm_contexts st c = Some emm_ctx"
    and p: "get_nas_common_procedure_identification emm_ctx = Some p"
    and ip: "ident_procs st p = Some ip"
    and res: "emm_proc_identification_complete e ue imsi imei imeisv tmsi st = Inr (rc, st')"
  shows "(\<exists>tr. trace st' = trace st @ Ev_nas_stop_T3470 ue # tr) \<and>
         timer_off st' p \<and>
         T3470_expiry e2 p st' = Inr st'"
proof -
  from complete_follows_stop [OF assms] obtain tr where
    t: "trace st' = trace (nas_stop_T3470 ue p st) @ tr" and off: "timer_off st' p"
    by (auto simp: follows_stop_def)
  have "trace st' = trace st @ Ev_nas_stop_T3470 ue # tr"
    using t by (simp add: nas_stop_T3470_def)
  with off timer_off_no_expiry [OF off, of e2] show ?thesis by blast
qed

theorem complete_stops_timer_first_witness:
  "emm_data_context_get (ex_st_wait 2) 7 = Some 4 \<and>
   emm_contexts (ex_st_wait 2) 4 = Some ex_ctx_wait \<and>
   get_nas_common_procedure_identification ex_ctx_wait = Some 0 \<and>
   ident_procs (ex_st_wait 2) 0 = Some (ex_ip 2) \<and>
   \<not> timer_off (ex_st_wait 2) 0 \<and>
   (\<exists>rc st' tr ip'.
      emm_proc_identification_complete ex_env_fail 7 None (Some [3, 5]) None None (ex_st_wait 2)
        = Inr (rc, st') \<and>
      trace st' = Ev_nas_stop_T3470 7 # tr \<and>
      ident_procs st' 0 = Some ip' \<and> timer_off st' 0 \<and>
      T3470_expiry ex_env_ok 0 st' = Inr st')"
proof -
  define S where "S = (emm_ctx_set_valid_imei 4 [3, 5] (nas_stop_T3470 7 0 (ex_st_wait 2)))
    \<lparr> trace := trace (emm_ctx_set_valid_imei 4 [3, 5] (nas_stop_T3470 7 0 (ex_st_wait 2))) @
        [Ev_emm_sap_send (common_proc_cnf 7 4 True 0 (ex_ip 2))] \<rparr>"
  have res: "emm_proc_identification_complete ex_env_fail 7 None (Some [3, 5]) None None (ex_st_wait 2)
      = Inr (RETURNerror, S)"
    by (simp add: emm_proc_identification_complete_def Let_def ex_wait_facts emm_sap_send_def
        ex_env_facts S_def)
  have alive: "ident_procs S 0 = Some ((ex_ip 2)\<lparr> ip_T3470 :=
      (ip_T3470 (ex_ip 2))\<lparr> tm_id := NAS_TIMER_INACTIVE_ID \<rparr> \<rparr>)"
    by (simp add: S_def emm_ctx_set_valid_imei_def nas_stop_T3470_def ex_wait_facts)
  have armed: "\<not> timer_off (ex_st_wait 2) 0"
    by (simp add: timer_off_def ex_wait_facts ex_ip_def NAS_TIMER_INACTIVE_ID_def)
  from complete_stops_timer_first [OF ex_wait_facts(12) ex_wait_facts(1) ex_wait_facts(2)
      ex_wait_facts(3) res, of ex_env_ok] res alive armed
  show ?thesis by (simp add: ex_wait_facts)
qed

end
